theory Spec2Isabelle
  imports Main "HOL-Library.Word" "HOL-Library.Signed_Division"
begin

section \<open>RectangleWin: the placement engine of \<open>main.go\<close>\<close>

text \<open>
  The development embeds the functions of \<open>main.go\<close> that place the foreground window:
  \<open>modNeg\<close>, \<open>moveToNextMonitor\<close>, \<open>center\<close>, \<open>resize\<close>, \<open>maximize\<close>,
  \<open>resizeForDpi\<close>, \<open>sameRect\<close>, and the closures \<open>cycleFuncs\<close>, \<open>cycleEdgeFuncs\<close>
  and the hotkey callbacks built in \<open>main\<close>.

  Conventions.
  \<^item> \<open>int32\<close> (the fields of \<open>w32.RECT\<close>, the DPI arguments) is \<open>32 word\<close>: \<open>+\<close>, \<open>-\<close>
    and \<open>*\<close> wrap, and Go's \<open>/\<close> is the truncating signed quotient.
  \<^item> Go's \<open>int\<close> is used only for slice indices, slice lengths and the turn counters;
    it is modelled by \<open>int\<close>: an index is bounded by the length of its slice and a turn
    counter grows by one per key press, so none of them reaches the 64-bit limit. Its
    remainder \<open>%\<close> truncates (\<open>smod\<close>).
  \<^item> A run-time panic is a value: every function that can panic returns
    \<open>panic + 'a\<close>, with \<open>Inl\<close> the panic.
  \<^item> A pointer \<open>*RECT\<close> is a \<open>RECT option\<close>, \<open>None\<close> being \<open>nil\<close>.
\<close>

subsection \<open>Panics\<close>

datatype panic =
    DivideByZero
  | NilDereference
  | IndexOutOfRange
  | PanicMsg string

definition bindP :: "panic + 'a \<Rightarrow> ('a \<Rightarrow> panic + 'b) \<Rightarrow> panic + 'b" where
  "bindP m k = (case m of Inl p \<Rightarrow> Inl p | Inr v \<Rightarrow> k v)"

definition deref :: "'a option \<Rightarrow> panic + 'a" where
  "deref p = (case p of None \<Rightarrow> Inl NilDereference | Some v \<Rightarrow> Inr v)"

subsection \<open>Integer arithmetic of Go\<close>

type_synonym int32 = "32 word"

text \<open>\<open>a / b\<close> on \<open>int32\<close>: the quotient truncated toward zero, wrapped to 32 bits
  (\<open>MinInt32 / -1\<close> is \<open>MinInt32\<close>); a zero divisor panics.\<close>

definition quo32 :: "int32 \<Rightarrow> int32 \<Rightarrow> int32" where
  "quo32 a b = word_of_int (sint a sdiv sint b)"

definition div32 :: "int32 \<Rightarrow> int32 \<Rightarrow> panic + int32" where
  "div32 a b = (if b = 0 then Inl DivideByZero else Inr (quo32 a b))"

text \<open>\<open>v % m\<close> on \<open>int\<close>: the remainder has the sign of \<open>v\<close>; a zero divisor panics.\<close>

definition rem :: "int \<Rightarrow> int \<Rightarrow> panic + int" where
  "rem v m = (if m = 0 then Inl DivideByZero else Inr (v smod m))"

text \<open>\<open>xs[k]\<close> on a slice: a panic when \<open>k\<close> is negative or not below \<open>len(xs)\<close>.\<close>

definition index :: "'a list \<Rightarrow> int \<Rightarrow> panic + 'a" where
  "index xs k = (if 0 \<le> k \<and> k < int (length xs) then Inr (xs ! nat k) else Inl IndexOutOfRange)"

subsection \<open>Rectangles\<close>

text \<open>\<open>w32.RECT\<close>: four \<open>int32\<close> fields. \<open>Width\<close> and \<open>Height\<close> are the methods of the
  \<open>w32\<close> library, \<open>Right - Left\<close> and \<open>Bottom - Top\<close>.\<close>

record RECT =
  Left :: int32
  Top :: int32
  Right :: int32
  Bottom :: int32

definition Width :: "RECT \<Rightarrow> int32" where
  "Width r = Right r - Left r"

definition Height :: "RECT \<Rightarrow> int32" where
  "Height r = Bottom r - Top r"

text \<open>\<open>reflect.DeepEqual\<close> on two \<open>RECT\<close> values compares them field by field.\<close>

definition DeepEqual :: "RECT \<Rightarrow> RECT \<Rightarrow> bool" where
  "DeepEqual a b \<longleftrightarrow>
     Left a = Left b \<and> Top a = Top b \<and> Right a = Right b \<and> Bottom a = Bottom b"

text \<open>\<open>sameRect\<close>: \<open>a != nil && b != nil && reflect.DeepEqual(*a, *b)\<close>. The operator
  \<open>&&\<close> evaluates its right operand only when the left one is true.\<close>

definition sameRect :: "RECT option \<Rightarrow> RECT option \<Rightarrow> panic + bool" where
  "sameRect a b =
     (if a = None then Inr False
      else if b = None then Inr False
      else bindP (deref a) (\<lambda>ra. bindP (deref b) (\<lambda>rb. Inr (DeepEqual ra rb))))"

text \<open>\<open>resizeForDpi\<close>: every coordinate is multiplied by \<open>to\<close> and then divided by
  \<open>from\<close>, in \<open>int32\<close>; the fields are computed in the order the literal lists them.\<close>

definition resizeForDpi :: "RECT \<Rightarrow> int32 \<Rightarrow> int32 \<Rightarrow> panic + RECT" where
  "resizeForDpi src fromDpi toDpi =
     bindP (div32 (Left src * toDpi) fromDpi) (\<lambda>l.
     bindP (div32 (Right src * toDpi) fromDpi) (\<lambda>r.
     bindP (div32 (Top src * toDpi) fromDpi) (\<lambda>t.
     bindP (div32 (Bottom src * toDpi) fromDpi) (\<lambda>b.
       Inr \<lparr>Left = l, Top = t, Right = r, Bottom = b\<rparr>))))"

text \<open>\<open>center\<close>: the divisor is the constant 2, so no panic is possible.\<close>

definition center :: "RECT \<Rightarrow> RECT \<Rightarrow> RECT" where
  "center disp cur =
     (let w = quo32 (Width disp - Width cur) 2;
          h = quo32 (Height disp - Height cur) 2
      in \<lparr>Left = Left disp + w,
          Top = Top disp + h,
          Right = Left disp + w + Width cur,
          Bottom = Top disp + h + Height cur\<rparr>)"

subsection \<open>Invisible-border correction\<close>

text \<open>Lines 261--273 of \<open>resize\<close> (and 189--201 of \<open>moveToNextMonitor\<close>, identical): the
  four extents between the DPI-normalized frame and the outer rectangle, and the
  adjustment of the new position by them.\<close>

record extras =
  lExtra :: int32
  rExtra :: int32
  tExtra :: int32
  bExtra :: int32

definition borderExtras :: "RECT \<Rightarrow> RECT \<Rightarrow> extras" where
  "borderExtras resizedFrame rect =
     \<lparr>lExtra = Left resizedFrame - Left rect,
      rExtra = - Right resizedFrame + Right rect,
      tExtra = Top resizedFrame - Top rect,
      bExtra = - Bottom resizedFrame + Bottom rect\<rparr>"

definition adjustOffsets :: "extras \<Rightarrow> RECT \<Rightarrow> RECT" where
  "adjustOffsets e newPos =
     newPos\<lparr>Left := Left newPos - lExtra e,
            Top := Top newPos - tExtra e,
            Right := Right newPos + rExtra e,
            Bottom := Bottom newPos + bExtra e\<rparr>"

subsection \<open>The platform layer\<close>

text \<open>
  The calls into \<open>w32\<close>, \<open>w32ex\<close> and the helpers \<open>isZonableWindow\<close> and
  \<open>EnumMonitors\<close> are not part of \<open>main.go\<close>. They are parameters: a \<open>platform\<close>
  gives the answers the operating system returns during one hotkey invocation.
  \<^item> \<open>GetWindowRect\<close> returns a \<open>*RECT\<close>; \<open>GetWindowRectPost\<close> is the second call
    of \<open>resize\<close>, made after the move.
  \<^item> \<open>GetMonitorInfo\<close> and \<open>DwmGetWindowAttributeEXTENDED_FRAME_BOUNDS\<close> return
    \<open>None\<close> when the call reports failure, and otherwise the work area \<open>RcWork\<close> and the
    frame.
  \<^item> \<open>GetDeviceCaps\<close> is the \<open>LOGPIXELSY\<close> capability of the window's device context.
  \<^item> \<open>EnumMonitors\<close> is the sequence of monitors handed to the callback, in order.
\<close>

type_synonym HWND = nat
type_synonym HMONITOR = nat
type_synonym resizeFunc = "RECT \<Rightarrow> RECT \<Rightarrow> RECT"

datatype showcmd = SW_SHOWNORMAL | SW_MAXIMIZE

record platform =
  GetForegroundWindow :: HWND
  isZonableWindow :: "HWND \<Rightarrow> bool"
  GetWindowRect :: "HWND \<Rightarrow> RECT option"
  GetWindowRectPost :: "HWND \<Rightarrow> RECT option"
  MonitorFromWindow :: "HWND \<Rightarrow> HMONITOR"
  GetDeviceCaps :: "HWND \<Rightarrow> int"
  ReleaseDC :: "HWND \<Rightarrow> bool"
  GetMonitorInfo :: "HMONITOR \<Rightarrow> RECT option"
  DwmGetWindowAttributeEXTENDED_FRAME_BOUNDS :: "HWND \<Rightarrow> RECT option"
  GetDpiForWindow :: "HWND \<Rightarrow> int"
  ShowWindow :: "HWND \<Rightarrow> showcmd \<Rightarrow> bool"
  SetWindowPos :: "HWND \<Rightarrow> int \<Rightarrow> int \<Rightarrow> int \<Rightarrow> int \<Rightarrow> bool"
  EnumMonitors :: "HMONITOR list"

subsection \<open>Program state and effects\<close>

text \<open>The errors built with \<open>fmt.Errorf\<close> and \<open>errors.New\<close> (the last-error code in
  their text is left out).\<close>

datatype error =
    FailedReleaseDC
  | FailedGetMonitorInfo
  | FailedFrameBounds
  | FailedShowWindowNormal
  | FailedSetWindowPos
  | NotZonable
  | FailedShowWindowMaximize

text \<open>The lines printed that report a warning or a suppressed move (the purely
  informational \<open>>\<close> lines are left out), and the requests sent to the window system.\<close>

datatype logline =
    WarnNonZonable HWND
  | WarnResize error
  | WarnMaximize error
  | NoResize

datatype oscall =
    CallShowWindow HWND showcmd
  | CallSetWindowPos HWND int int int int

text \<open>The package variable \<open>lastResized\<close>, the slice \<open>edgeFuncTurn\<close> of \<open>main\<close>, and the
  two effect traces.\<close>

record state =
  lastResized :: HWND
  edgeFuncTurn :: "int list"
  stdout :: "logline list"
  oscalls :: "oscall list"

type_synonym placed = "(bool \<times> error option) \<times> state"

subsection \<open>Monitor selection\<close>

text \<open>\<open>modNeg\<close>: \<open>(v%m + m) % m\<close>.\<close>

definition modNeg :: "int \<Rightarrow> int \<Rightarrow> panic + int" where
  "modNeg v m = bindP (rem v m) (\<lambda>r. rem (r + m) m)"

text \<open>The callback passed to \<open>EnumMonitors\<close> (lines 158--165), run on each monitor in
  turn; it always returns \<open>true\<close>, so the enumeration visits every monitor. The triple
  is \<open>(monitors, monitorIndex, curMonitorIndex)\<close>.\<close>

fun enumCallback ::
  "HMONITOR \<Rightarrow> HMONITOR list \<Rightarrow> HMONITOR list \<times> int \<times> int \<Rightarrow> HMONITOR list \<times> int \<times> int" where
  "enumCallback mon [] acc = acc"
| "enumCallback mon (d # ds) (monitors, monitorIndex, curMonitorIndex) =
     enumCallback mon ds
       (monitors @ [d],
        if d = mon then curMonitorIndex else monitorIndex,
        curMonitorIndex + 1)"

text \<open>Lines 154--168 of \<open>moveToNextMonitor\<close>: enumerate, then
  \<open>monitors[modNeg(monitorIndex-1, len(monitors))]\<close>.\<close>

definition pickMonitor :: "HMONITOR \<Rightarrow> HMONITOR list \<Rightarrow> panic + HMONITOR" where
  "pickMonitor mon ds =
     (case enumCallback mon ds ([], 0, 0) of
        (monitors, monitorIndex, curMonitorIndex) \<Rightarrow>
          bindP (modNeg (monitorIndex - 1) (int (length monitors))) (\<lambda>k. index monitors k))"

subsection \<open>Placement\<close>

text \<open>Lines 275--290 of \<open>resize\<close> (and 203--218 of \<open>moveToNextMonitor\<close>, identical):
  record the window, suppress a move to the same rectangle, otherwise normalize the
  window and move it. \<open>rect.Width()\<close> on the rectangle read back after the move
  dereferences it.\<close>

definition commitMove :: "platform \<Rightarrow> HWND \<Rightarrow> RECT option \<Rightarrow> RECT \<Rightarrow> state \<Rightarrow> panic + placed" where
  "commitMove os hwnd rect newPos s =
     (let s1 = s\<lparr>lastResized := hwnd\<rparr> in
      bindP (sameRect rect (Some newPos)) (\<lambda>same.
        if same then Inr ((False, None), s1\<lparr>stdout := stdout s1 @ [NoResize]\<rparr>)
        else
          let s2 = s1\<lparr>oscalls := oscalls s1 @ [CallShowWindow hwnd SW_SHOWNORMAL]\<rparr> in
          if \<not> ShowWindow os hwnd SW_SHOWNORMAL then Inr ((False, Some FailedShowWindowNormal), s2)
          else
            let x = sint (Left newPos); y = sint (Top newPos);
                w = sint (Width newPos); h = sint (Height newPos);
                s3 = s2\<lparr>oscalls := oscalls s2 @ [CallSetWindowPos hwnd x y w h]\<rparr> in
            if \<not> SetWindowPos os hwnd x y w h then Inr ((False, Some FailedSetWindowPos), s3)
            else bindP (deref (GetWindowRectPost os hwnd)) (\<lambda>r. Inr ((True, None), s3))))"

text \<open>\<open>resize\<close>. The first dereference of \<open>rect\<close> is \<open>rect.Width()\<close> in the first
  \<open>Printf\<close>, after \<open>resizeForDpi\<close>.\<close>

definition resize :: "platform \<Rightarrow> HWND \<Rightarrow> resizeFunc \<Rightarrow> state \<Rightarrow> panic + placed" where
  "resize os hwnd f s =
     (if \<not> isZonableWindow os hwnd then
        Inr ((False, None), s\<lparr>stdout := stdout s @ [WarnNonZonable hwnd]\<rparr>)
      else
        let rect = GetWindowRect os hwnd;
            mon = MonitorFromWindow os hwnd;
            displayDPI = GetDeviceCaps os hwnd
        in
        if \<not> ReleaseDC os hwnd then Inr ((False, Some FailedReleaseDC), s)
        else case GetMonitorInfo os mon of
          None \<Rightarrow> Inr ((False, Some FailedGetMonitorInfo), s)
        | Some rcWork \<Rightarrow>
        (case DwmGetWindowAttributeEXTENDED_FRAME_BOUNDS os hwnd of
          None \<Rightarrow> Inr ((False, Some FailedFrameBounds), s)
        | Some frame \<Rightarrow>
            let windowDPI = GetDpiForWindow os hwnd in
            bindP (resizeForDpi frame (word_of_int windowDPI) (word_of_int displayDPI)) (\<lambda>resizedFrame.
            bindP (deref rect) (\<lambda>r.
              let e = borderExtras resizedFrame r;
                  newPos = adjustOffsets e (f rcWork resizedFrame)
              in commitMove os hwnd rect newPos s))))"

text \<open>\<open>moveToNextMonitor\<close>. The monitors are enumerated and the target chosen before
  the device context is released.\<close>

definition moveToNextMonitor :: "platform \<Rightarrow> HWND \<Rightarrow> state \<Rightarrow> panic + placed" where
  "moveToNextMonitor os hwnd s =
     (if \<not> isZonableWindow os hwnd then
        Inr ((False, None), s\<lparr>stdout := stdout s @ [WarnNonZonable hwnd]\<rparr>)
      else
        let rect = GetWindowRect os hwnd;
            mon = MonitorFromWindow os hwnd;
            displayDPI = GetDeviceCaps os hwnd
        in
        bindP (pickMonitor mon (EnumMonitors os)) (\<lambda>mon.
        if \<not> ReleaseDC os hwnd then Inr ((False, Some FailedReleaseDC), s)
        else case GetMonitorInfo os mon of
          None \<Rightarrow> Inr ((False, Some FailedGetMonitorInfo), s)
        | Some rcWork \<Rightarrow>
        (case DwmGetWindowAttributeEXTENDED_FRAME_BOUNDS os hwnd of
          None \<Rightarrow> Inr ((False, Some FailedFrameBounds), s)
        | Some frame \<Rightarrow>
            let windowDPI = GetDpiForWindow os hwnd in
            bindP (resizeForDpi frame (word_of_int windowDPI) (word_of_int displayDPI)) (\<lambda>resizedFrame.
            bindP (deref rect) (\<lambda>r.
              let e = borderExtras resizedFrame r;
                  newPos = adjustOffsets e (center rcWork resizedFrame)
              in commitMove os hwnd rect newPos s)))))"

text \<open>\<open>maximize\<close> returns an error or \<open>nil\<close>; it cannot panic.\<close>

definition maximize :: "platform \<Rightarrow> state \<Rightarrow> error option \<times> state" where
  "maximize os s =
     (let hwnd = GetForegroundWindow os in
      if \<not> isZonableWindow os hwnd then (Some NotZonable, s)
      else
        let s1 = s\<lparr>oscalls := oscalls s @ [CallShowWindow hwnd SW_MAXIMIZE]\<rparr> in
        if \<not> ShowWindow os hwnd SW_MAXIMIZE then (Some FailedShowWindowMaximize, s1)
        else (None, s1))"

subsection \<open>The cycle of layout variants\<close>

text \<open>The layout functions named in the table \<open>edgeFuncs\<close> are defined outside
  \<open>main.go\<close>; they are parameters, and the table is the one \<open>main\<close> builds.\<close>

record layouts =
  leftHalf :: resizeFunc
  leftTwoThirds :: resizeFunc
  leftOneThirds :: resizeFunc
  rightHalf :: resizeFunc
  rightTwoThirds :: resizeFunc
  rightOneThirds :: resizeFunc
  topHalf :: resizeFunc
  topTwoThirds :: resizeFunc
  topOneThirds :: resizeFunc
  bottomHalf :: resizeFunc
  bottomTwoThirds :: resizeFunc
  bottomOneThirds :: resizeFunc
  middleThirds :: resizeFunc

definition edgeFuncs :: "layouts \<Rightarrow> resizeFunc list list" where
  "edgeFuncs L =
     [[leftHalf L, leftTwoThirds L, leftOneThirds L],
      [rightHalf L, rightTwoThirds L, rightOneThirds L],
      [topHalf L, topTwoThirds L, topOneThirds L],
      [bottomHalf L, bottomTwoThirds L, bottomOneThirds L],
      [leftOneThirds L, middleThirds L, rightOneThirds L]]"

text \<open>The loop of lines 71--75: every index other than \<open>i\<close> is set to 0.\<close>

function resetOthers :: "nat \<Rightarrow> nat \<Rightarrow> int list \<Rightarrow> int list" where
  "resetOthers i j turns =
     (if j < length turns
      then resetOthers i (j + 1) (if j \<noteq> i then turns[j := 0] else turns)
      else turns)"
  by pat_completeness auto
termination
  by (relation "measure (\<lambda>(i, j, turns). length turns - j)") auto

text \<open>\<open>cycleFuncs\<close>. The reset of lines 63--65 (\<open>resetTurns\<close>) allocates
  \<open>len(edgeFuncs)\<close> zeros, \<open>edgeFuncs\<close> being the table captured by the closure. The
  operands of
  \<open>funcs[i][(*turns)[i]%len(funcs[i])]\<close> are evaluated from left to right. The boolean
  returned by \<open>resize\<close> is discarded; only the error is inspected.\<close>

definition resetTurns :: "layouts \<Rightarrow> HWND \<Rightarrow> state \<Rightarrow> state" where
  "resetTurns L hwnd s =
     (if lastResized s \<noteq> hwnd
      then s\<lparr>edgeFuncTurn := replicate (length (edgeFuncs L)) 0\<rparr>
      else s)"

definition cycleFuncs ::
  "layouts \<Rightarrow> platform \<Rightarrow> resizeFunc list list \<Rightarrow> nat \<Rightarrow> state \<Rightarrow> panic + state" where
  "cycleFuncs L os funcs i s =
     (let hwnd = GetForegroundWindow os in
      if hwnd = 0 then Inl (PanicMsg ''foreground window is NULL'')
      else
        let s1 = resetTurns L hwnd s in
        bindP (index funcs (int i)) (\<lambda>row.
        bindP (index (edgeFuncTurn s1) (int i)) (\<lambda>t.
        bindP (rem t (int (length row))) (\<lambda>k.
        bindP (index row k) (\<lambda>f.
        bindP (resize os hwnd f s1) (\<lambda>(res, s2).
          case snd res of
            Some e \<Rightarrow> Inr (s2\<lparr>stdout := stdout s2 @ [WarnResize e]\<rparr>)
          | None \<Rightarrow>
              bindP (index (edgeFuncTurn s2) (int i)) (\<lambda>t2.
                Inr (s2\<lparr>edgeFuncTurn :=
                           resetOthers i 0 ((edgeFuncTurn s2)[i := t2 + 1])\<rparr>))))))))"

definition cycleEdgeFuncs :: "layouts \<Rightarrow> platform \<Rightarrow> nat \<Rightarrow> state \<Rightarrow> panic + state" where
  "cycleEdgeFuncs L os i s = cycleFuncs L os (edgeFuncs L) i s"

subsection \<open>The hotkey callbacks\<close>

text \<open>The seven entries of \<open>hks\<close>, named by their \<open>id\<close>.\<close>

datatype hotkey = HK1 | HK2 | HK3 | HK4 | HK50 | HK51 | HK52

definition callback :: "layouts \<Rightarrow> platform \<Rightarrow> hotkey \<Rightarrow> state \<Rightarrow> panic + state" where
  "callback L os hk s =
     (case hk of
        HK1 \<Rightarrow> cycleEdgeFuncs L os 0 s
      | HK2 \<Rightarrow> cycleEdgeFuncs L os 1 s
      | HK3 \<Rightarrow> cycleEdgeFuncs L os 2 s
      | HK4 \<Rightarrow> cycleEdgeFuncs L os 3 s
      | HK50 \<Rightarrow>
          (let s0 = s\<lparr>lastResized := 0\<rparr> in
           case maximize os s0 of
             (Some e, s1) \<Rightarrow> Inr (s1\<lparr>stdout := stdout s1 @ [WarnMaximize e]\<rparr>)
           | (None, s1) \<Rightarrow> Inr s1)
      | HK51 \<Rightarrow> cycleEdgeFuncs L os 4 s
      | HK52 \<Rightarrow>
          (let hwnd = GetForegroundWindow os in
           if hwnd = 0 then Inl (PanicMsg ''foreground window is NULL'')
           else
             bindP (moveToNextMonitor os hwnd s) (\<lambda>(res, s1).
               case snd res of
                 Some e \<Rightarrow> Inr (s1\<lparr>stdout := stdout s1 @ [WarnMaximize e]\<rparr>)
               | None \<Rightarrow> Inr s1)))"

text \<open>The state \<open>main\<close> starts with, and a run of the program: hotkey presses
  delivered one at a time, each with the platform's answers at that moment. A panic
  ends the process.\<close>

definition startup :: "layouts \<Rightarrow> state" where
  "startup L =
     \<lparr>lastResized = 0,
      edgeFuncTurn = replicate (length (edgeFuncs L)) 0,
      stdout = [],
      oscalls = []\<rparr>"

fun run :: "layouts \<Rightarrow> (platform \<times> hotkey) list \<Rightarrow> state \<Rightarrow> panic + state" where
  "run L [] s = Inr s"
| "run L ((os, hk) # evs) s = bindP (callback L os hk s) (run L evs)"

subsection \<open>A concrete desktop\<close>

text \<open>
  Modelled from the spec: the layout functions \<open>leftHalf\<close>, \<open>leftTwoThirds\<close>, \<dots> are
  defined outside \<open>main.go\<close>. Following section 4.4 of the specification, each one
  occupies the given fraction of the work area along one axis and its full extent along
  the other, flush to its edge, the fraction being computed in integer arithmetic and
  rounded down. They serve only to instantiate the parameter \<open>layouts\<close> in the concrete
  scenarios below.
\<close>

definition leftPart :: "int32 \<Rightarrow> int32 \<Rightarrow> resizeFunc" where
  "leftPart n d disp cur = disp\<lparr>Right := Left disp + quo32 (Width disp * n) d\<rparr>"

definition rightPart :: "int32 \<Rightarrow> int32 \<Rightarrow> resizeFunc" where
  "rightPart n d disp cur = disp\<lparr>Left := Left disp + quo32 (Width disp * (d - n)) d\<rparr>"

definition topPart :: "int32 \<Rightarrow> int32 \<Rightarrow> resizeFunc" where
  "topPart n d disp cur = disp\<lparr>Bottom := Top disp + quo32 (Height disp * n) d\<rparr>"

definition bottomPart :: "int32 \<Rightarrow> int32 \<Rightarrow> resizeFunc" where
  "bottomPart n d disp cur = disp\<lparr>Top := Top disp + quo32 (Height disp * (d - n)) d\<rparr>"

definition middlePart :: resizeFunc where
  "middlePart disp cur =
     disp\<lparr>Left := Left disp + quo32 (Width disp) 3,
          Right := Left disp + quo32 (Width disp * 2) 3\<rparr>"

definition specLayouts :: layouts where
  "specLayouts =
     \<lparr>leftHalf = leftPart 1 2, leftTwoThirds = leftPart 2 3, leftOneThirds = leftPart 1 3,
      rightHalf = rightPart 1 2, rightTwoThirds = rightPart 2 3, rightOneThirds = rightPart 1 3,
      topHalf = topPart 1 2, topTwoThirds = topPart 2 3, topOneThirds = topPart 1 3,
      bottomHalf = bottomPart 1 2, bottomTwoThirds = bottomPart 2 3,
      bottomOneThirds = bottomPart 1 3,
      middleThirds = middlePart\<rparr>"

text \<open>Three monitors side by side, enumerated as 1, 2, 3; window 5 is in the
  foreground, fills the left half of monitor 1, has no invisible border and the DPI of
  its display. Every platform call succeeds.\<close>

definition workArea :: "HMONITOR \<Rightarrow> RECT option" where
  "workArea m =
     (if m = 1 then Some \<lparr>Left = 0, Top = 0, Right = 1920, Bottom = 1080\<rparr>
      else if m = 2 then Some \<lparr>Left = 1920, Top = 0, Right = 3840, Bottom = 1080\<rparr>
      else if m = 3 then Some \<lparr>Left = 3840, Top = 0, Right = 5760, Bottom = 1080\<rparr>
      else None)"

definition desk :: platform where
  "desk =
     \<lparr>GetForegroundWindow = 5,
      isZonableWindow = (\<lambda>h. True),
      GetWindowRect = (\<lambda>h. Some \<lparr>Left = 0, Top = 0, Right = 960, Bottom = 1080\<rparr>),
      GetWindowRectPost = (\<lambda>h. Some \<lparr>Left = 0, Top = 0, Right = 960, Bottom = 1080\<rparr>),
      MonitorFromWindow = (\<lambda>h. 1),
      GetDeviceCaps = (\<lambda>h. 96),
      ReleaseDC = (\<lambda>h. True),
      GetMonitorInfo = workArea,
      DwmGetWindowAttributeEXTENDED_FRAME_BOUNDS =
        (\<lambda>h. Some \<lparr>Left = 0, Top = 0, Right = 960, Bottom = 1080\<rparr>),
      GetDpiForWindow = (\<lambda>h. 96),
      ShowWindow = (\<lambda>h c. True),
      SetWindowPos = (\<lambda>h x y w ht. True),
      EnumMonitors = [1, 2, 3]\<rparr>"

text \<open>Variations: the foreground window is not zonable; the window's monitor (handle 9)
  is not among the enumerated ones; no window is in the foreground; window 6 is in the
  foreground.\<close>

definition lockedDesk :: platform where
  "lockedDesk = desk\<lparr>isZonableWindow := (\<lambda>h. False)\<rparr>"

definition staleDesk :: platform where
  "staleDesk = desk\<lparr>MonitorFromWindow := (\<lambda>h. 9)\<rparr>"

definition emptyDesk :: platform where
  "emptyDesk = desk\<lparr>GetForegroundWindow := 0\<rparr>"

definition otherLockedDesk :: platform where
  "otherLockedDesk = desk\<lparr>GetForegroundWindow := 6, isZonableWindow := (\<lambda>h. False)\<rparr>"

text \<open>The same desktop with window 5 filling the left half of monitor 3.\<close>

definition farDesk :: platform where
  "farDesk =
     desk\<lparr>GetWindowRect := (\<lambda>h. Some \<lparr>Left = 3840, Top = 0, Right = 4800, Bottom = 1080\<rparr>),
          DwmGetWindowAttributeEXTENDED_FRAME_BOUNDS :=
            (\<lambda>h. Some \<lparr>Left = 3840, Top = 0, Right = 4800, Bottom = 1080\<rparr>),
          MonitorFromWindow := (\<lambda>h. 3)\<rparr>"

subsection \<open>Conditions under which no panic can occur\<close>

text \<open>Further variations of the desktop: \<open>SetWindowPos\<close> fails; the window reports DPI 0;
  no monitor is enumerated; \<open>GetWindowRect\<close> returns \<open>nil\<close>.\<close>

definition stuckDesk :: platform where
  "stuckDesk = desk\<lparr>SetWindowPos := (\<lambda>h x y w ht. False)\<rparr>"

definition dpiZeroDesk :: platform where
  "dpiZeroDesk = desk\<lparr>GetDpiForWindow := (\<lambda>h. 0)\<rparr>"

definition noMonitorDesk :: platform where
  "noMonitorDesk = desk\<lparr>EnumMonitors := []\<rparr>"

definition nilRectDesk :: platform where
  "nilRectDesk = desk\<lparr>GetWindowRect := (\<lambda>h. None)\<rparr>"



section \<open>Properties\<close>

subsection \<open>Auxiliary facts\<close>

declare resetOthers.simps [simp del]

lemma deref_Some: "deref (Some v) = Inr v"
  by (simp add: deref_def)

lemma bindP_Inr: "bindP (Inr v) k = k v"
  by (simp add: bindP_def)

lemma bindP_Inl: "bindP (Inl p) k = Inl p"
  by (simp add: bindP_def)

lemma bindP_eq_Inr: "bindP m k = Inr y \<longleftrightarrow> (\<exists>v. m = Inr v \<and> k v = Inr y)"
  by (cases m) (simp_all add: bindP_def)

lemma index_nth: "0 \<le> k \<Longrightarrow> k < int (length xs) \<Longrightarrow> index xs k = Inr (xs ! nat k)"
  by (simp add: index_def)

lemmas step_defs = callback_def cycleEdgeFuncs_def cycleFuncs_def resetTurns_def resize_def
  moveToNextMonitor_def commitMove_def maximize_def pickMonitor_def modNeg_def rem_def index_def
  bindP_def deref_def sameRect_def DeepEqual_def resizeForDpi_def div32_def quo32_def center_def
  Width_def Height_def borderExtras_def adjustOffsets_def startup_def edgeFuncs_def
  resetOthers.simps Let_def signed_divide_int_def signed_modulo_int_def

lemmas scene_defs = desk_def farDesk_def lockedDesk_def staleDesk_def emptyDesk_def otherLockedDesk_def
  stuckDesk_def dpiZeroDesk_def noMonitorDesk_def nilRectDesk_def workArea_def specLayouts_def leftPart_def rightPart_def topPart_def bottomPart_def
  middlePart_def

subsection \<open>Rectangle equality\<close>

text \<open>
  C10. For all rectangle pointers \<open>a\<close> and \<open>b\<close>, \<open>sameRect a b\<close> returns true exactly when
  both pointers are non-nil and the two rectangles agree on all four fields. It never
  panics: when either pointer is nil it returns false and dereferences nothing.
\<close>

theorem sameRect_iff:
  "sameRect a b =
     Inr (a \<noteq> None \<and> b \<noteq> None \<and>
          Left (the a) = Left (the b) \<and> Top (the a) = Top (the b) \<and>
          Right (the a) = Right (the b) \<and> Bottom (the a) = Bottom (the b))
   \<and> sameRect None b = Inr False
   \<and> sameRect a None = Inr False"
  by (cases a; cases b) (simp_all add: sameRect_def deref_Some bindP_Inr DeepEqual_def)

subsection \<open>DPI rescaling\<close>

lemma trunc_roundtrip:
  fixes a :: int
  shows "\<bar>((a * 150) sdiv 100 * 100) sdiv 150 - a\<bar> \<le> 1"
  unfolding signed_divide_int_def
  by (cases "a \<ge> 0") (auto simp: sgn_if abs_mult; presburger)+

lemma sint_mult_small:
  fixes x y :: int32
  assumes "- 2147483648 \<le> sint x * sint y" "sint x * sint y < 2147483648"
  shows "sint (x * y) = sint x * sint y"
proof -
  have "sint (x * y) = signed_take_bit 31 (sint x * sint y)"
    by (simp add: sint_word_ariths)
  also have "\<dots> = sint x * sint y"
    using assms by (intro signed_take_bit_int_eq_self) simp_all
  finally show ?thesis .
qed

lemma sint_word_of_int_small:
  assumes "- 2147483648 \<le> k" "k < 2147483648"
  shows "sint (word_of_int k :: int32) = k"
  using assms by (simp add: signed_of_int signed_take_bit_int_eq_self)

lemma scale_up_bound:
  fixes a :: int
  assumes "\<bar>a\<bar> \<le> 14316557"
  shows "\<bar>(a * 150) sdiv 100\<bar> \<le> 21474835"
  using assms unfolding signed_divide_int_def
  by (cases "a \<ge> 0") (auto simp: sgn_if abs_mult)

lemma scale_down_bound:
  fixes a :: int
  assumes "\<bar>a\<bar> \<le> 21474835"
  shows "\<bar>(a * 100) sdiv 150\<bar> \<le> 14316557"
  using assms unfolding signed_divide_int_def
  by (cases "a \<ge> 0") (auto simp: sgn_if abs_mult)

lemma scale_up:
  fixes c :: int32
  assumes "\<bar>sint c\<bar> \<le> 14316557"
  shows "sint (quo32 (c * 150) 100) = (sint c * 150) sdiv 100"
proof -
  have m: "sint (c * 150) = sint c * 150"
    using assms by (subst sint_mult_small) simp_all
  have "\<bar>(sint c * 150) sdiv 100\<bar> \<le> 21474835"
    using assms by (rule scale_up_bound)
  then show ?thesis
    unfolding quo32_def m by (subst sint_word_of_int_small) simp_all
qed

lemma scale_down:
  fixes c :: int32
  assumes "\<bar>sint c\<bar> \<le> 21474835"
  shows "sint (quo32 (c * 100) 150) = (sint c * 100) sdiv 150"
proof -
  have m: "sint (c * 100) = sint c * 100"
    using assms by (subst sint_mult_small) simp_all
  have "\<bar>(sint c * 100) sdiv 150\<bar> \<le> 14316557"
    using assms by (rule scale_down_bound)
  then show ?thesis
    unfolding quo32_def m by (subst sint_word_of_int_small) simp_all
qed

lemma coord_roundtrip:
  fixes c :: int32
  assumes "\<bar>sint c\<bar> \<le> 14316557"
  shows "\<bar>sint (quo32 (quo32 (c * 150) 100 * 100) 150) - sint c\<bar> \<le> 1"
proof -
  have up: "sint (quo32 (c * 150) 100) = (sint c * 150) sdiv 100"
    using assms by (rule scale_up)
  have "\<bar>sint (quo32 (c * 150) 100)\<bar> \<le> 21474835"
    unfolding up using assms by (rule scale_up_bound)
  then have "sint (quo32 (quo32 (c * 150) 100 * 100) 150)
      = ((sint c * 150) sdiv 100 * 100) sdiv 150"
    by (simp add: scale_down up)
  then show ?thesis
    by (simp add: trunc_roundtrip)
qed

lemma resizeForDpi_nonzero:
  "fromDpi \<noteq> 0 \<Longrightarrow> resizeForDpi src fromDpi toDpi =
     Inr \<lparr>Left = quo32 (Left src * toDpi) fromDpi, Top = quo32 (Top src * toDpi) fromDpi,
          Right = quo32 (Right src * toDpi) fromDpi, Bottom = quo32 (Bottom src * toDpi) fromDpi\<rparr>"
  by (simp add: resizeForDpi_def div32_def bindP_Inr)

text \<open>
  C3, as stated, fails: the product \<open>coordinate * 150\<close> is computed in \<open>int32\<close> and wraps
  once the coordinate exceeds 14316557. The rectangle with \<open>Right = 20000000\<close> comes back
  from the round trip with \<open>Right = -8633114\<close>.
\<close>

theorem dpi_roundtrip_overflow:
  "resizeForDpi \<lparr>Left = 0, Top = 0, Right = 20000000, Bottom = 0\<rparr> 100 150
     = Inr \<lparr>Left = 0, Top = 0, Right = - 12949672, Bottom = 0\<rparr>
   \<and> resizeForDpi \<lparr>Left = 0, Top = 0, Right = - 12949672, Bottom = 0\<rparr> 150 100
     = Inr \<lparr>Left = 0, Top = 0, Right = - 8633114, Bottom = 0\<rparr>
   \<and> \<not> \<bar>sint (- 8633114 :: int32) - sint (20000000 :: int32)\<bar> \<le> 1"
  by (simp add: resizeForDpi_nonzero quo32_def signed_divide_int_def)

text \<open>
  C3, amended. For every rectangle whose four coordinates lie between -14316557 and
  14316557 (so that multiplying by 150 does not overflow \<open>int32\<close>), rescaling from DPI
  100 to DPI 150 and back from 150 to 100 succeeds and yields a rectangle each of
  whose coordinates differs from the original by at most 1.
\<close>

theorem dpi_roundtrip_in_range:
  assumes "\<bar>sint (Left r)\<bar> \<le> 14316557" "\<bar>sint (Top r)\<bar> \<le> 14316557"
    "\<bar>sint (Right r)\<bar> \<le> 14316557" "\<bar>sint (Bottom r)\<bar> \<le> 14316557"
  shows "\<exists>r1 r2. resizeForDpi r 100 150 = Inr r1 \<and> resizeForDpi r1 150 100 = Inr r2 \<and>
           \<bar>sint (Left r2) - sint (Left r)\<bar> \<le> 1 \<and> \<bar>sint (Top r2) - sint (Top r)\<bar> \<le> 1 \<and>
           \<bar>sint (Right r2) - sint (Right r)\<bar> \<le> 1 \<and> \<bar>sint (Bottom r2) - sint (Bottom r)\<bar> \<le> 1"
  using assms by (simp add: resizeForDpi_nonzero coord_roundtrip)

theorem dpi_roundtrip_in_range_witness:
  "\<exists>r1 r2. resizeForDpi \<lparr>Left = - 7, Top = 1, Right = 1913, Bottom = 1081\<rparr> 100 150 = Inr r1 \<and>
     resizeForDpi r1 150 100 = Inr r2 \<and>
     \<bar>sint (Left r2) - sint (- 7 :: int32)\<bar> \<le> 1 \<and> \<bar>sint (Top r2) - sint (1 :: int32)\<bar> \<le> 1 \<and>
     \<bar>sint (Right r2) - sint (1913 :: int32)\<bar> \<le> 1 \<and> \<bar>sint (Bottom r2) - sint (1081 :: int32)\<bar> \<le> 1"
  using dpi_roundtrip_in_range [of "\<lparr>Left = - 7, Top = 1, Right = 1913, Bottom = 1081\<rparr>"]
  by simp

subsection \<open>Border correction\<close>

text \<open>
  C9. When the DPI-normalized frame equals the window's outer rectangle, the four
  invisible-border extents are zero and adjusting a candidate target by them leaves the
  target unchanged; \<open>resize\<close> then proceeds with exactly the rectangle the layout
  function returned.
\<close>

theorem border_correction_zero:
  "borderExtras outer outer = \<lparr>lExtra = 0, rExtra = 0, tExtra = 0, bExtra = 0\<rparr>
   \<and> adjustOffsets (borderExtras outer outer) target = target
   \<and> (isZonableWindow os hwnd \<and> ReleaseDC os hwnd
        \<and> GetMonitorInfo os (MonitorFromWindow os hwnd) = Some rcWork
        \<and> DwmGetWindowAttributeEXTENDED_FRAME_BOUNDS os hwnd = Some frame
        \<and> GetWindowRect os hwnd = Some outer
        \<and> resizeForDpi frame (word_of_int (GetDpiForWindow os hwnd))
              (word_of_int (GetDeviceCaps os hwnd)) = Inr outer
      \<longrightarrow> resize os hwnd f s = commitMove os hwnd (Some outer) (f rcWork outer) s)"
  by (simp add: borderExtras_def adjustOffsets_def resize_def Let_def bindP_Inr deref_Some)

theorem border_correction_zero_witness:
  "isZonableWindow desk 5 \<and> ReleaseDC desk 5
   \<and> GetMonitorInfo desk (MonitorFromWindow desk 5)
        = Some \<lparr>Left = 0, Top = 0, Right = 1920, Bottom = 1080\<rparr>
   \<and> DwmGetWindowAttributeEXTENDED_FRAME_BOUNDS desk 5
        = Some \<lparr>Left = 0, Top = 0, Right = 960, Bottom = 1080\<rparr>
   \<and> GetWindowRect desk 5 = Some \<lparr>Left = 0, Top = 0, Right = 960, Bottom = 1080\<rparr>
   \<and> resizeForDpi \<lparr>Left = 0, Top = 0, Right = 960, Bottom = 1080\<rparr>
         (word_of_int (GetDpiForWindow desk 5)) (word_of_int (GetDeviceCaps desk 5))
        = Inr \<lparr>Left = 0, Top = 0, Right = 960, Bottom = 1080\<rparr>
   \<and> resize desk 5 (rightHalf specLayouts) (startup specLayouts)
        = commitMove desk 5 (Some \<lparr>Left = 0, Top = 0, Right = 960, Bottom = 1080\<rparr>)
            \<lparr>Left = 960, Top = 0, Right = 1920, Bottom = 1080\<rparr> (startup specLayouts)"
proof -
  have q: "isZonableWindow desk 5 \<and> ReleaseDC desk 5
   \<and> GetMonitorInfo desk (MonitorFromWindow desk 5)
        = Some \<lparr>Left = 0, Top = 0, Right = 1920, Bottom = 1080\<rparr>
   \<and> DwmGetWindowAttributeEXTENDED_FRAME_BOUNDS desk 5
        = Some \<lparr>Left = 0, Top = 0, Right = 960, Bottom = 1080\<rparr>
   \<and> GetWindowRect desk 5 = Some \<lparr>Left = 0, Top = 0, Right = 960, Bottom = 1080\<rparr>"
    by (simp add: scene_defs)
  have d: "resizeForDpi \<lparr>Left = 0, Top = 0, Right = 960, Bottom = 1080\<rparr>
         (word_of_int (GetDpiForWindow desk 5)) (word_of_int (GetDeviceCaps desk 5))
        = Inr \<lparr>Left = 0, Top = 0, Right = 960, Bottom = 1080\<rparr>"
    by (simp add: scene_defs resizeForDpi_def div32_def quo32_def bindP_def signed_divide_int_def)
  have f: "rightHalf specLayouts \<lparr>Left = 0, Top = 0, Right = 1920, Bottom = 1080\<rparr>
             \<lparr>Left = 0, Top = 0, Right = 960, Bottom = 1080\<rparr>
           = \<lparr>Left = 960, Top = 0, Right = 1920, Bottom = 1080\<rparr>"
    by (simp add: scene_defs quo32_def Width_def signed_divide_int_def)
  show ?thesis
    using border_correction_zero [of "\<lparr>Left = 0, Top = 0, Right = 960, Bottom = 1080\<rparr>" _ desk 5
        "\<lparr>Left = 0, Top = 0, Right = 1920, Bottom = 1080\<rparr>"
        "\<lparr>Left = 0, Top = 0, Right = 960, Bottom = 1080\<rparr>"
        "rightHalf specLayouts" "startup specLayouts"] q d f
    by simp
qed

subsection \<open>Monitor selection\<close>

lemma smod_nonneg: "0 \<le> a \<Longrightarrow> 0 < m \<Longrightarrow> a smod m = a mod (m::int)"
  by (cases "a = 0") (simp_all add: signed_modulo_int_def sgn_if)

lemma smod_neg: "a < 0 \<Longrightarrow> 0 < m \<Longrightarrow> a smod m = - ((- a) mod (m::int))"
  by (simp add: signed_modulo_int_def sgn_if)

lemma modNeg_pos: "0 < m \<Longrightarrow> modNeg v m = Inr (v mod m)"
proof -
  assume m: "0 < m"
  have r1: "rem v m = Inr (v smod m)" using m by (simp add: rem_def)
  have r2: "rem (v smod m + m) m = Inr ((v smod m + m) smod m)" using m by (simp add: rem_def)
  have "(v smod m + m) smod m = v mod m"
  proof (cases "0 \<le> v")
    case True
    then have a: "v smod m = v mod m" using m by (rule smod_nonneg)
    have "0 \<le> v mod m + m" using m by (simp add: add_nonneg_nonneg)
    then have "(v mod m + m) smod m = (v mod m + m) mod m" using m by (rule smod_nonneg)
    then show ?thesis by (simp add: a)
  next
    case False
    then have neg: "v < 0" by simp
    have a: "v smod m = - ((- v) mod m)" using neg m by (rule smod_neg)
    have b: "(- v) mod m < m" using m by simp
    have "0 \<le> - ((- v) mod m) + m" using b by simp
    then have "(- ((- v) mod m) + m) smod m = (- ((- v) mod m) + m) mod m"
      using m by (rule smod_nonneg)
    also have "\<dots> = (- ((- v) mod m)) mod m" by simp
    also have "\<dots> = v mod m" by (simp add: mod_minus_eq)
    finally show ?thesis by (simp add: a)
  qed
  then show ?thesis by (simp add: modNeg_def r1 r2 bindP_Inr)
qed

lemma enumCallback_absent:
  "mon \<notin> set ds \<Longrightarrow>
   enumCallback mon ds (ms, mi, ci) = (ms @ ds, mi, ci + int (length ds))"
  by (induction ds arbitrary: ms mi ci) auto

lemma enumCallback_last:
  "i < length ds \<Longrightarrow> ds ! i = mon \<Longrightarrow> \<forall>j < length ds. i < j \<longrightarrow> ds ! j \<noteq> mon \<Longrightarrow>
   enumCallback mon ds (ms, mi, ci) = (ms @ ds, ci + int i, ci + int (length ds))"
proof (induction ds arbitrary: i ms mi ci)
  case Nil
  then show ?case by simp
next
  case (Cons d ds)
  show ?case
  proof (cases i)
    case 0
    have "mon \<notin> set ds"
    proof
      assume "mon \<in> set ds"
      then obtain k where "k < length ds" "ds ! k = mon" by (auto simp: in_set_conv_nth)
      with Cons.prems(3) 0 show False by (auto dest: spec [of _ "Suc k"])
    qed
    with 0 Cons.prems(2) show ?thesis by (simp add: enumCallback_absent)
  next
    case (Suc i')
    have 1: "i' < length ds" using Cons.prems(1) Suc by simp
    have 2: "ds ! i' = mon" using Cons.prems(2) Suc by simp
    have 3: "\<forall>j < length ds. i' < j \<longrightarrow> ds ! j \<noteq> mon"
    proof (intro allI impI)
      fix j assume "j < length ds" "i' < j"
      with Cons.prems(3) Suc show "ds ! j \<noteq> mon" by (auto dest: spec [of _ "Suc j"])
    qed
    show ?thesis using Cons.IH [OF 1 2 3] Suc by simp
  qed
qed

lemma sameRect_Some: "sameRect (Some a) (Some b) = Inr (DeepEqual a b)"
  by (simp add: sameRect_def deref_Some bindP_Inr)

lemma moveToNextMonitor_picked:
  assumes "pickMonitor (MonitorFromWindow os hwnd) (EnumMonitors os) = Inr target"
    and "isZonableWindow os hwnd" "ReleaseDC os hwnd"
    and "GetMonitorInfo os target = Some rcWork"
    and "DwmGetWindowAttributeEXTENDED_FRAME_BOUNDS os hwnd = Some frame"
    and "resizeForDpi frame (word_of_int (GetDpiForWindow os hwnd))
           (word_of_int (GetDeviceCaps os hwnd)) = Inr resizedFrame"
    and "GetWindowRect os hwnd = Some rect"
  shows "moveToNextMonitor os hwnd s =
           commitMove os hwnd (Some rect)
             (adjustOffsets (borderExtras resizedFrame rect) (center rcWork resizedFrame)) s"
  using assms by (simp add: moveToNextMonitor_def Let_def bindP_Inr deref_Some)

lemma commitMove_moved:
  assumes "\<not> DeepEqual rect newPos" "ShowWindow os hwnd SW_SHOWNORMAL"
    and "SetWindowPos os hwnd (sint (Left newPos)) (sint (Top newPos))
           (sint (Width newPos)) (sint (Height newPos))"
    and "GetWindowRectPost os hwnd \<noteq> None"
  shows "commitMove os hwnd (Some rect) newPos s =
           Inr ((True, None),
                s\<lparr>lastResized := hwnd,
                  oscalls := oscalls s @
                    [CallShowWindow hwnd SW_SHOWNORMAL,
                     CallSetWindowPos hwnd (sint (Left newPos)) (sint (Top newPos))
                       (sint (Width newPos)) (sint (Height newPos))]\<rparr>)"
  using assms by (auto simp: commitMove_def Let_def sameRect_Some bindP_Inr deref_Some)

text \<open>
  C2. Let the enumeration locate the hosting monitor at index \<open>i\<close> of a list of \<open>N\<close>
  monitors (\<open>i\<close> is the position of the hosting monitor in the list, the last such
  position should a handle be listed twice). Then the monitor selected is the one at
  index \<open>(i - 1) mod N\<close>, which is what \<open>modNeg\<close> returns and lies in \<open>[0, N)\<close>. With three
  distinct monitors \<open>[M0, M1, M2]\<close>, a window on \<open>M0\<close> goes to \<open>M2\<close> and a window on
  \<open>M2\<close> goes to \<open>M1\<close>. \<open>moveToNextMonitor\<close> itself, on a platform that enumerates this list
  and reports this hosting monitor, reads the work area of the monitor at index
  \<open>(i - 1) mod N\<close> and proceeds with the window centred in it; when that position differs
  from the current rectangle and the window system accepts the requests, it moves the
  window there.
\<close>

theorem pickMonitor_previous:
  assumes "i < length ds" "ds ! i = mon" "\<forall>j < length ds. i < j \<longrightarrow> ds ! j \<noteq> mon"
  shows "pickMonitor mon ds = Inr (ds ! nat ((int i - 1) mod int (length ds)))
       \<and> modNeg (int i - 1) (int (length ds)) = Inr ((int i - 1) mod int (length ds))
       \<and> 0 \<le> (int i - 1) mod int (length ds)
       \<and> (int i - 1) mod int (length ds) < int (length ds)
       \<and> (M0 \<noteq> M1 \<and> M0 \<noteq> M2 \<and> M1 \<noteq> M2 \<longrightarrow>
            pickMonitor M0 [M0, M1, M2] = Inr M2 \<and> pickMonitor M2 [M0, M1, M2] = Inr M1)
       \<and> (EnumMonitors os = ds \<and> MonitorFromWindow os hwnd = mon
            \<and> isZonableWindow os hwnd \<and> ReleaseDC os hwnd
            \<and> GetMonitorInfo os (ds ! nat ((int i - 1) mod int (length ds))) = Some rcWork
            \<and> DwmGetWindowAttributeEXTENDED_FRAME_BOUNDS os hwnd = Some frame
            \<and> resizeForDpi frame (word_of_int (GetDpiForWindow os hwnd))
                 (word_of_int (GetDeviceCaps os hwnd)) = Inr resizedFrame
            \<and> GetWindowRect os hwnd = Some rect
          \<longrightarrow> moveToNextMonitor os hwnd s =
                commitMove os hwnd (Some rect)
                  (adjustOffsets (borderExtras resizedFrame rect) (center rcWork resizedFrame)) s
              \<and> (\<not> DeepEqual rect
                      (adjustOffsets (borderExtras resizedFrame rect) (center rcWork resizedFrame))
                  \<and> ShowWindow os hwnd SW_SHOWNORMAL
                  \<and> SetWindowPos os hwnd
                      (sint (Left (adjustOffsets (borderExtras resizedFrame rect) (center rcWork resizedFrame))))
                      (sint (Top (adjustOffsets (borderExtras resizedFrame rect) (center rcWork resizedFrame))))
                      (sint (Width (adjustOffsets (borderExtras resizedFrame rect) (center rcWork resizedFrame))))
                      (sint (Height (adjustOffsets (borderExtras resizedFrame rect) (center rcWork resizedFrame))))
                  \<and> GetWindowRectPost os hwnd \<noteq> None
                \<longrightarrow> moveToNextMonitor os hwnd s =
                      Inr ((True, None),
                           s\<lparr>lastResized := hwnd,
                             oscalls := oscalls s @
                               [CallShowWindow hwnd SW_SHOWNORMAL,
                                CallSetWindowPos hwnd
                                  (sint (Left (adjustOffsets (borderExtras resizedFrame rect) (center rcWork resizedFrame))))
                                  (sint (Top (adjustOffsets (borderExtras resizedFrame rect) (center rcWork resizedFrame))))
                                  (sint (Width (adjustOffsets (borderExtras resizedFrame rect) (center rcWork resizedFrame))))
                                  (sint (Height (adjustOffsets (borderExtras resizedFrame rect) (center rcWork resizedFrame))))]\<rparr>)))"
proof -
  let ?target = "ds ! nat ((int i - 1) mod int (length ds))"
  let ?newPos = "adjustOffsets (borderExtras resizedFrame rect) (center rcWork resizedFrame)"
  have n: "0 < int (length ds)" using assms(1) by (cases ds) simp_all
  have e: "enumCallback mon ds ([], 0, 0) = (ds, int i, int (length ds))"
    using enumCallback_last [OF assms, of "[]" 0 0] by simp
  have lo: "0 \<le> (int i - 1) mod int (length ds)" using n by simp
  have hi: "(int i - 1) mod int (length ds) < int (length ds)" using n by simp
  have sel: "pickMonitor mon ds = Inr ?target"
    by (simp add: pickMonitor_def e modNeg_pos [OF n] bindP_Inr index_nth [OF lo hi])
  have three: "M0 \<noteq> M1 \<and> M0 \<noteq> M2 \<and> M1 \<noteq> M2 \<longrightarrow>
      pickMonitor M0 [M0, M1, M2] = Inr M2 \<and> pickMonitor M2 [M0, M1, M2] = Inr M1"
    by (simp add: pickMonitor_def modNeg_pos bindP_Inr index_def)
  have first: "pickMonitor mon ds = Inr ?target
       \<and> modNeg (int i - 1) (int (length ds)) = Inr ((int i - 1) mod int (length ds))
       \<and> 0 \<le> (int i - 1) mod int (length ds)
       \<and> (int i - 1) mod int (length ds) < int (length ds)
       \<and> (M0 \<noteq> M1 \<and> M0 \<noteq> M2 \<and> M1 \<noteq> M2 \<longrightarrow>
            pickMonitor M0 [M0, M1, M2] = Inr M2 \<and> pickMonitor M2 [M0, M1, M2] = Inr M1)"
    using sel lo hi modNeg_pos [OF n] three by simp
  have op: "moveToNextMonitor os hwnd s = commitMove os hwnd (Some rect) ?newPos s"
    if "EnumMonitors os = ds" "MonitorFromWindow os hwnd = mon"
      "isZonableWindow os hwnd" "ReleaseDC os hwnd"
      "GetMonitorInfo os ?target = Some rcWork"
      "DwmGetWindowAttributeEXTENDED_FRAME_BOUNDS os hwnd = Some frame"
      "resizeForDpi frame (word_of_int (GetDpiForWindow os hwnd))
         (word_of_int (GetDeviceCaps os hwnd)) = Inr resizedFrame"
      "GetWindowRect os hwnd = Some rect"
  proof -
    have "pickMonitor (MonitorFromWindow os hwnd) (EnumMonitors os) = Inr ?target"
      using sel that(1,2) by simp
    then show ?thesis using that(3-8) by (rule moveToNextMonitor_picked)
  qed
  have second: "EnumMonitors os = ds \<and> MonitorFromWindow os hwnd = mon
            \<and> isZonableWindow os hwnd \<and> ReleaseDC os hwnd
            \<and> GetMonitorInfo os ?target = Some rcWork
            \<and> DwmGetWindowAttributeEXTENDED_FRAME_BOUNDS os hwnd = Some frame
            \<and> resizeForDpi frame (word_of_int (GetDpiForWindow os hwnd))
                 (word_of_int (GetDeviceCaps os hwnd)) = Inr resizedFrame
            \<and> GetWindowRect os hwnd = Some rect
          \<longrightarrow> moveToNextMonitor os hwnd s = commitMove os hwnd (Some rect) ?newPos s
              \<and> (\<not> DeepEqual rect ?newPos
                  \<and> ShowWindow os hwnd SW_SHOWNORMAL
                  \<and> SetWindowPos os hwnd (sint (Left ?newPos)) (sint (Top ?newPos))
                      (sint (Width ?newPos)) (sint (Height ?newPos))
                  \<and> GetWindowRectPost os hwnd \<noteq> None
                \<longrightarrow> moveToNextMonitor os hwnd s =
                      Inr ((True, None),
                           s\<lparr>lastResized := hwnd,
                             oscalls := oscalls s @
                               [CallShowWindow hwnd SW_SHOWNORMAL,
                                CallSetWindowPos hwnd (sint (Left ?newPos)) (sint (Top ?newPos))
                                  (sint (Width ?newPos)) (sint (Height ?newPos))]\<rparr>))"
  proof (intro impI conjI)
    assume a: "EnumMonitors os = ds \<and> MonitorFromWindow os hwnd = mon
            \<and> isZonableWindow os hwnd \<and> ReleaseDC os hwnd
            \<and> GetMonitorInfo os ?target = Some rcWork
            \<and> DwmGetWindowAttributeEXTENDED_FRAME_BOUNDS os hwnd = Some frame
            \<and> resizeForDpi frame (word_of_int (GetDpiForWindow os hwnd))
                 (word_of_int (GetDeviceCaps os hwnd)) = Inr resizedFrame
            \<and> GetWindowRect os hwnd = Some rect"
    then show c: "moveToNextMonitor os hwnd s = commitMove os hwnd (Some rect) ?newPos s"
      using op by blast
    assume b: "\<not> DeepEqual rect ?newPos
                  \<and> ShowWindow os hwnd SW_SHOWNORMAL
                  \<and> SetWindowPos os hwnd (sint (Left ?newPos)) (sint (Top ?newPos))
                      (sint (Width ?newPos)) (sint (Height ?newPos))
                  \<and> GetWindowRectPost os hwnd \<noteq> None"
    show "moveToNextMonitor os hwnd s =
                      Inr ((True, None),
                           s\<lparr>lastResized := hwnd,
                             oscalls := oscalls s @
                               [CallShowWindow hwnd SW_SHOWNORMAL,
                                CallSetWindowPos hwnd (sint (Left ?newPos)) (sint (Top ?newPos))
                                  (sint (Width ?newPos)) (sint (Height ?newPos))]\<rparr>)"
      unfolding c using b by (intro commitMove_moved) simp_all
  qed
  from first second show ?thesis by (elim conjE, intro conjI) assumption+
qed


theorem pickMonitor_previous_witness:
  "(0::nat) < length [1, 2, 3 :: nat] \<and> [1, 2, 3 :: nat] ! 0 = 1
   \<and> pickMonitor 1 [1, 2, 3] = Inr 3 \<and> pickMonitor 3 [1, 2, 3] = Inr 2
   \<and> modNeg (int 0 - 1) (int (length [1, 2, 3 :: nat])) = Inr 2
   \<and> EnumMonitors desk = [1, 2, 3] \<and> MonitorFromWindow desk 5 = 1
   \<and> moveToNextMonitor desk 5 (startup specLayouts) =
       Inr ((True, None),
            \<lparr>lastResized = 5, edgeFuncTurn = [0, 0, 0, 0, 0], stdout = [],
             oscalls = [CallShowWindow 5 SW_SHOWNORMAL, CallSetWindowPos 5 4320 0 960 1080]\<rparr>)
   \<and> EnumMonitors farDesk = [1, 2, 3] \<and> MonitorFromWindow farDesk 5 = 3
   \<and> moveToNextMonitor farDesk 5 (startup specLayouts) =
       Inr ((True, None),
            \<lparr>lastResized = 5, edgeFuncTurn = [0, 0, 0, 0, 0], stdout = [],
             oscalls = [CallShowWindow 5 SW_SHOWNORMAL, CallSetWindowPos 5 2400 0 960 1080]\<rparr>)"
proof -
  let ?ds = "[1, 2, 3] :: HMONITOR list"
  let ?near = "\<lparr>Left = 0, Top = 0, Right = 960, Bottom = 1080\<rparr> :: RECT"
  let ?far = "\<lparr>Left = 3840, Top = 0, Right = 4800, Bottom = 1080\<rparr> :: RECT"
  let ?work2 = "\<lparr>Left = 1920, Top = 0, Right = 3840, Bottom = 1080\<rparr> :: RECT"
  let ?work3 = "\<lparr>Left = 3840, Top = 0, Right = 5760, Bottom = 1080\<rparr> :: RECT"
  let ?pos3 = "adjustOffsets (borderExtras ?near ?near) (center ?work3 ?near)"
  let ?pos2 = "adjustOffsets (borderExtras ?far ?far) (center ?work2 ?far)"
  have d: "resizeForDpi ?near 96 96 = Inr ?near" "resizeForDpi ?far 96 96 = Inr ?far"
    by (simp_all add: resizeForDpi_nonzero quo32_def signed_divide_int_def)
  have c3: "?pos3 = \<lparr>Left = 4320, Top = 0, Right = 5280, Bottom = 1080\<rparr>"
    by (simp add: adjustOffsets_def borderExtras_def center_def Width_def Height_def
        quo32_def signed_divide_int_def Let_def)
  have c2: "?pos2 = \<lparr>Left = 2400, Top = 0, Right = 3360, Bottom = 1080\<rparr>"
    by (simp add: adjustOffsets_def borderExtras_def center_def Width_def Height_def
        quo32_def signed_divide_int_def Let_def)
  have i0: "(0::nat) < length ?ds" "?ds ! 0 = 1" "\<forall>j < length ?ds. 0 < j \<longrightarrow> ?ds ! j \<noteq> 1"
    by (simp_all add: less_Suc_eq)
  have i2: "(2::nat) < length ?ds" "?ds ! 2 = 3" "\<forall>j < length ?ds. 2 < j \<longrightarrow> ?ds ! j \<noteq> 3"
    by (simp_all add: less_Suc_eq)
  have t0: "?ds ! nat ((int 0 - 1) mod int (length ?ds)) = 3" by simp
  have t2: "?ds ! nat ((int 2 - 1) mod int (length ?ds)) = 2" by simp
  note near = pickMonitor_previous [OF i0, where ?M0.0 = 1 and ?M1.0 = 2 and ?M2.0 = 3
      and os = desk and hwnd = 5 and rcWork = ?work3 and frame = ?near
      and resizedFrame = ?near and rect = ?near and s = "startup specLayouts"]
  note far = pickMonitor_previous [OF i2, where ?M0.0 = 1 and ?M1.0 = 2 and ?M2.0 = 3
      and os = farDesk and hwnd = 5 and rcWork = ?work2 and frame = ?far
      and resizedFrame = ?far and rect = ?far and s = "startup specLayouts"]
  have q3: "EnumMonitors desk = ?ds \<and> MonitorFromWindow desk 5 = 1
      \<and> isZonableWindow desk 5 \<and> ReleaseDC desk 5
      \<and> GetMonitorInfo desk (?ds ! nat ((int 0 - 1) mod int (length ?ds))) = Some ?work3
      \<and> DwmGetWindowAttributeEXTENDED_FRAME_BOUNDS desk 5 = Some ?near
      \<and> resizeForDpi ?near (word_of_int (GetDpiForWindow desk 5))
           (word_of_int (GetDeviceCaps desk 5)) = Inr ?near
      \<and> GetWindowRect desk 5 = Some ?near"
    unfolding t0 using d(1) by (simp add: desk_def workArea_def)
  have q2: "EnumMonitors farDesk = ?ds \<and> MonitorFromWindow farDesk 5 = 3
      \<and> isZonableWindow farDesk 5 \<and> ReleaseDC farDesk 5
      \<and> GetMonitorInfo farDesk (?ds ! nat ((int 2 - 1) mod int (length ?ds))) = Some ?work2
      \<and> DwmGetWindowAttributeEXTENDED_FRAME_BOUNDS farDesk 5 = Some ?far
      \<and> resizeForDpi ?far (word_of_int (GetDpiForWindow farDesk 5))
           (word_of_int (GetDeviceCaps farDesk 5)) = Inr ?far
      \<and> GetWindowRect farDesk 5 = Some ?far"
    unfolding t2 using d(2) by (simp add: farDesk_def desk_def workArea_def)
  have m3: "\<not> DeepEqual ?near ?pos3 \<and> ShowWindow desk 5 SW_SHOWNORMAL
      \<and> SetWindowPos desk 5 (sint (Left ?pos3)) (sint (Top ?pos3))
           (sint (Width ?pos3)) (sint (Height ?pos3))
      \<and> GetWindowRectPost desk 5 \<noteq> None"
    unfolding c3 by (simp add: DeepEqual_def desk_def)
  have m2: "\<not> DeepEqual ?far ?pos2 \<and> ShowWindow farDesk 5 SW_SHOWNORMAL
      \<and> SetWindowPos farDesk 5 (sint (Left ?pos2)) (sint (Top ?pos2))
           (sint (Width ?pos2)) (sint (Height ?pos2))
      \<and> GetWindowRectPost farDesk 5 \<noteq> None"
    unfolding c2 by (simp add: DeepEqual_def farDesk_def desk_def)
  have sel: "pickMonitor 1 ?ds = Inr 3" "pickMonitor 3 ?ds = Inr 2"
      "modNeg (int 0 - 1) (int (length ?ds)) = Inr 2"
    using near far by simp_all
  have r3: "moveToNextMonitor desk 5 (startup specLayouts) =
       Inr ((True, None),
            \<lparr>lastResized = 5, edgeFuncTurn = [0, 0, 0, 0, 0], stdout = [],
             oscalls = [CallShowWindow 5 SW_SHOWNORMAL, CallSetWindowPos 5 4320 0 960 1080]\<rparr>)"
    using near [THEN conjunct2, THEN conjunct2, THEN conjunct2, THEN conjunct2, THEN conjunct2,
        THEN mp, OF q3, THEN conjunct2, THEN mp, OF m3]
    unfolding c3 by (simp add: startup_def edgeFuncs_def Width_def Height_def)
  have r2: "moveToNextMonitor farDesk 5 (startup specLayouts) =
       Inr ((True, None),
            \<lparr>lastResized = 5, edgeFuncTurn = [0, 0, 0, 0, 0], stdout = [],
             oscalls = [CallShowWindow 5 SW_SHOWNORMAL, CallSetWindowPos 5 2400 0 960 1080]\<rparr>)"
    using far [THEN conjunct2, THEN conjunct2, THEN conjunct2, THEN conjunct2, THEN conjunct2,
        THEN mp, OF q2, THEN conjunct2, THEN mp, OF m2]
    unfolding c2 by (simp add: startup_def edgeFuncs_def Width_def Height_def)
  show ?thesis
    using sel r3 r2 q3 q2 by simp
qed




subsection \<open>The turn indices and the recorded window\<close>

lemma resetOthers_length: "length (resetOthers i j turns) = length turns"
proof (induction i j turns rule: resetOthers.induct)
  case (1 i j turns)
  show ?case
  proof (cases "j < length turns")
    case True
    let ?t = "if j \<noteq> i then turns[j := 0] else turns"
    have "resetOthers i j turns = resetOthers i (j + 1) ?t"
      using True by (subst resetOthers.simps) simp
    then show ?thesis using "1.IH" [OF True] by simp
  next
    case False
    then show ?thesis by (subst resetOthers.simps) simp
  qed
qed

lemma resetOthers_nth:
  "k < length turns \<Longrightarrow>
   resetOthers i j turns ! k = (if k < j \<or> k = i then turns ! k else 0)"
proof (induction i j turns rule: resetOthers.induct)
  case (1 i j turns)
  show ?case
  proof (cases "j < length turns")
    case True
    let ?t = "if j \<noteq> i then turns[j := 0] else turns"
    have len: "k < length ?t" using "1.prems" by simp
    have "resetOthers i j turns ! k = resetOthers i (j + 1) ?t ! k"
      using True by (subst resetOthers.simps) simp
    also have "\<dots> = (if k < j + 1 \<or> k = i then ?t ! k else 0)"
      using "1.IH" [OF True len] .
    also have "\<dots> = (if k < j \<or> k = i then turns ! k else 0)"
      using "1.prems" by (auto simp: nth_list_update less_Suc_eq)
    finally show ?thesis .
  next
    case False
    then show ?thesis using "1.prems" by (subst resetOthers.simps) simp
  qed
qed

lemma all_zero_filter: "\<forall>j < length xs. xs ! j = (0::int) \<Longrightarrow> filter (\<lambda>t. t \<noteq> 0) xs = []"
  by (auto simp: filter_empty_conv in_set_conv_nth)

lemma one_nonzero_filter:
  "\<forall>j < length xs. j \<noteq> i \<longrightarrow> xs ! j = (0::int) \<Longrightarrow> length (filter (\<lambda>t. t \<noteq> 0) xs) \<le> 1"
proof (induction xs arbitrary: i)
  case Nil
  then show ?case by simp
next
  case (Cons x xs)
  show ?case
  proof (cases i)
    case 0
    have "\<forall>j < length xs. xs ! j = 0"
    proof (intro allI impI)
      fix j assume "j < length xs"
      with Cons.prems 0 show "xs ! j = 0" by (auto dest: spec [of _ "Suc j"])
    qed
    then have "filter (\<lambda>t. t \<noteq> 0) xs = []" by (rule all_zero_filter)
    then show ?thesis by simp
  next
    case (Suc i')
    have x: "x = 0" using Cons.prems Suc by (auto dest: spec [of _ 0])
    have "\<forall>j < length xs. j \<noteq> i' \<longrightarrow> xs ! j = 0"
    proof (intro allI impI)
      fix j assume "j < length xs" "j \<noteq> i'"
      with Cons.prems Suc show "xs ! j = 0" by (auto dest: spec [of _ "Suc j"])
    qed
    then have "length (filter (\<lambda>t. t \<noteq> 0) xs) \<le> 1" by (rule Cons.IH)
    then show ?thesis using x by simp
  qed
qed

lemma replicate_filter: "filter (\<lambda>t. t \<noteq> 0) (replicate n (0::int)) = []"
  by (induction n) simp_all

lemma commitMove_state:
  assumes "commitMove os hwnd rect newPos s = Inr (res, s')"
  shows "lastResized s' = hwnd \<and> edgeFuncTurn s' = edgeFuncTurn s"
  using assms
  by (auto simp: commitMove_def Let_def bindP_eq_Inr split: if_splits)

lemma resize_state:
  assumes "resize os hwnd f s = Inr (res, s')"
  shows "edgeFuncTurn s' = edgeFuncTurn s"
    and "lastResized s' =
      (if isZonableWindow os hwnd \<and> ReleaseDC os hwnd
          \<and> GetMonitorInfo os (MonitorFromWindow os hwnd) \<noteq> None
          \<and> DwmGetWindowAttributeEXTENDED_FRAME_BOUNDS os hwnd \<noteq> None
       then hwnd else lastResized s)"
  using assms
  by (auto simp: resize_def Let_def bindP_eq_Inr split: if_splits option.splits dest: commitMove_state)


lemma moveToNextMonitor_state:
  assumes "moveToNextMonitor os hwnd s = Inr (res, s')"
  shows "edgeFuncTurn s' = edgeFuncTurn s"
  using assms
  by (auto simp: moveToNextMonitor_def Let_def bindP_eq_Inr split: if_splits option.splits dest: commitMove_state)

lemma maximize_state: "edgeFuncTurn (snd (maximize os s)) = edgeFuncTurn s"
  by (simp add: maximize_def Let_def)

lemma commitMove_outcome:
  assumes "commitMove os hwnd rect newPos s = Inr (res, s')"
  shows "lastResized s' = hwnd
       \<and> snd res \<noteq> Some FailedReleaseDC \<and> snd res \<noteq> Some FailedGetMonitorInfo
       \<and> snd res \<noteq> Some FailedFrameBounds"
  using assms
  by (auto simp: commitMove_def Let_def bindP_eq_Inr split: if_splits)

lemma resize_outcome:
  assumes "resize os hwnd f s = Inr (res, s')"
  shows "lastResized s' =
      (if \<not> isZonableWindow os hwnd \<or> snd res = Some FailedReleaseDC
          \<or> snd res = Some FailedGetMonitorInfo \<or> snd res = Some FailedFrameBounds
       then lastResized s else hwnd)"
  using assms
  by (auto simp: resize_def Let_def bindP_eq_Inr split: if_splits option.splits
      dest: commitMove_outcome)

lemma moveToNextMonitor_outcome:
  assumes "moveToNextMonitor os hwnd s = Inr (res, s')"
  shows "lastResized s' =
      (if \<not> isZonableWindow os hwnd \<or> snd res = Some FailedReleaseDC
          \<or> snd res = Some FailedGetMonitorInfo \<or> snd res = Some FailedFrameBounds
       then lastResized s else hwnd)"
  using assms
  by (auto simp: moveToNextMonitor_def Let_def bindP_eq_Inr split: if_splits option.splits
      dest: commitMove_outcome)

lemma index_Inr: "index xs k = Inr v \<Longrightarrow> 0 \<le> k \<and> k < int (length xs) \<and> v = xs ! nat k"
  by (auto simp: index_def split: if_splits)

lemma cycleFuncs_Inr:
  assumes "cycleFuncs L os funcs i s = Inr s'"
  shows "\<exists>row t k f res s2.
           GetForegroundWindow os \<noteq> 0
         \<and> index funcs (int i) = Inr row
         \<and> index (edgeFuncTurn (resetTurns L (GetForegroundWindow os) s)) (int i) = Inr t
         \<and> rem t (int (length row)) = Inr k
         \<and> index row k = Inr f
         \<and> resize os (GetForegroundWindow os) f (resetTurns L (GetForegroundWindow os) s) = Inr (res, s2)
         \<and> s' = (case snd res of
                   Some e \<Rightarrow> s2\<lparr>stdout := stdout s2 @ [WarnResize e]\<rparr>
                 | None \<Rightarrow> s2\<lparr>edgeFuncTurn :=
                             resetOthers i 0 ((edgeFuncTurn s2)[i := edgeFuncTurn s2 ! i + 1])\<rparr>)"
proof -
  let ?h = "GetForegroundWindow os"
  let ?s1 = "resetTurns L ?h s"
  have h: "?h \<noteq> 0"
    using assms by (auto simp: cycleFuncs_def Let_def split: if_splits)
  from assms h obtain row where row: "index funcs (int i) = Inr row"
    and 1: "bindP (index (edgeFuncTurn ?s1) (int i)) (\<lambda>t.
        bindP (rem t (int (length row))) (\<lambda>k.
        bindP (index row k) (\<lambda>f.
        bindP (resize os ?h f ?s1) (\<lambda>(res, s2).
          case snd res of
            Some e \<Rightarrow> Inr (s2\<lparr>stdout := stdout s2 @ [WarnResize e]\<rparr>)
          | None \<Rightarrow>
              bindP (index (edgeFuncTurn s2) (int i)) (\<lambda>t2.
                Inr (s2\<lparr>edgeFuncTurn :=
                           resetOthers i 0 ((edgeFuncTurn s2)[i := t2 + 1])\<rparr>)))))) = Inr s'"
    by (auto simp: cycleFuncs_def Let_def bindP_eq_Inr)
  from 1 obtain t where t: "index (edgeFuncTurn ?s1) (int i) = Inr t"
    and 2: "bindP (rem t (int (length row))) (\<lambda>k.
        bindP (index row k) (\<lambda>f.
        bindP (resize os ?h f ?s1) (\<lambda>(res, s2).
          case snd res of
            Some e \<Rightarrow> Inr (s2\<lparr>stdout := stdout s2 @ [WarnResize e]\<rparr>)
          | None \<Rightarrow>
              bindP (index (edgeFuncTurn s2) (int i)) (\<lambda>t2.
                Inr (s2\<lparr>edgeFuncTurn :=
                           resetOthers i 0 ((edgeFuncTurn s2)[i := t2 + 1])\<rparr>))))) = Inr s'"
    by (auto simp: bindP_eq_Inr)
  from 2 obtain k where k: "rem t (int (length row)) = Inr k"
    and 3: "bindP (index row k) (\<lambda>f.
        bindP (resize os ?h f ?s1) (\<lambda>(res, s2).
          case snd res of
            Some e \<Rightarrow> Inr (s2\<lparr>stdout := stdout s2 @ [WarnResize e]\<rparr>)
          | None \<Rightarrow>
              bindP (index (edgeFuncTurn s2) (int i)) (\<lambda>t2.
                Inr (s2\<lparr>edgeFuncTurn :=
                           resetOthers i 0 ((edgeFuncTurn s2)[i := t2 + 1])\<rparr>)))) = Inr s'"
    by (auto simp: bindP_eq_Inr)
  from 3 obtain f where f: "index row k = Inr f"
    and 4: "bindP (resize os ?h f ?s1) (\<lambda>(res, s2).
          case snd res of
            Some e \<Rightarrow> Inr (s2\<lparr>stdout := stdout s2 @ [WarnResize e]\<rparr>)
          | None \<Rightarrow>
              bindP (index (edgeFuncTurn s2) (int i)) (\<lambda>t2.
                Inr (s2\<lparr>edgeFuncTurn :=
                           resetOthers i 0 ((edgeFuncTurn s2)[i := t2 + 1])\<rparr>))) = Inr s'"
    by (auto simp: bindP_eq_Inr)
  from 4 obtain res s2 where r: "resize os ?h f ?s1 = Inr (res, s2)"
    and 5: "(case snd res of
            Some e \<Rightarrow> Inr (s2\<lparr>stdout := stdout s2 @ [WarnResize e]\<rparr>)
          | None \<Rightarrow>
              bindP (index (edgeFuncTurn s2) (int i)) (\<lambda>t2.
                Inr (s2\<lparr>edgeFuncTurn :=
                           resetOthers i 0 ((edgeFuncTurn s2)[i := t2 + 1])\<rparr>))) = Inr s'"
    by (auto simp: bindP_eq_Inr)
  have 6: "s' = (case snd res of
                   Some e \<Rightarrow> s2\<lparr>stdout := stdout s2 @ [WarnResize e]\<rparr>
                 | None \<Rightarrow> s2\<lparr>edgeFuncTurn :=
                             resetOthers i 0 ((edgeFuncTurn s2)[i := edgeFuncTurn s2 ! i + 1])\<rparr>)"
  proof (cases "snd res")
    case None
    with 5 obtain t2 where "index (edgeFuncTurn s2) (int i) = Inr t2"
      and e: "s' = s2\<lparr>edgeFuncTurn := resetOthers i 0 ((edgeFuncTurn s2)[i := t2 + 1])\<rparr>"
      by (auto simp: bindP_eq_Inr)
    then have "t2 = edgeFuncTurn s2 ! i" by (auto dest: index_Inr)
    with e None show ?thesis by simp
  next
    case (Some e)
    with 5 show ?thesis by simp
  qed
  show ?thesis
    using h row t k f r 6 by blast
qed

lemma rem_zero: "rem 0 m = Inr k \<Longrightarrow> m \<noteq> 0 \<and> k = 0"
  by (auto simp: rem_def signed_modulo_int_def split: if_splits)

text \<open>
  C6, as stated, fails: \<open>lastResized\<close> is assigned only after the zonable check and the
  platform queries. For a window that is not zonable, or whose monitor information
  cannot be read, \<open>resize\<close> returns with \<open>lastResized\<close> still 7 although window 5 was
  targeted.
\<close>

theorem resize_skips_recording:
  "resize lockedDesk 5 (leftHalf specLayouts)
      \<lparr>lastResized = 7, edgeFuncTurn = [0, 0, 0, 0, 0], stdout = [], oscalls = []\<rparr>
     = Inr ((False, None),
            \<lparr>lastResized = 7, edgeFuncTurn = [0, 0, 0, 0, 0], stdout = [WarnNonZonable 5],
             oscalls = []\<rparr>)
   \<and> resize staleDesk 5 (leftHalf specLayouts)
      \<lparr>lastResized = 7, edgeFuncTurn = [0, 0, 0, 0, 0], stdout = [], oscalls = []\<rparr>
     = Inr ((False, Some FailedGetMonitorInfo),
            \<lparr>lastResized = 7, edgeFuncTurn = [0, 0, 0, 0, 0], stdout = [], oscalls = []\<rparr>)"
  by (simp add: step_defs scene_defs)

text \<open>
  C6, amended. A placement invocation (\<open>resize\<close> or \<open>moveToNextMonitor\<close>) that returns
  records the targeted window as the last-resized window unless the window is not
  zonable or the \<open>ReleaseDC\<close>, \<open>GetMonitorInfo\<close> or frame-bounds call failed; in those
  cases \<open>lastResized\<close> keeps its previous value. The window is thus recorded for a no-op,
  for a move, and for a failed \<open>ShowWindow\<close> or \<open>SetWindowPos\<close>.
\<close>

theorem placement_records_window:
  "(resize os hwnd f s = Inr (res, s') \<longrightarrow>
      lastResized s' =
        (if \<not> isZonableWindow os hwnd \<or> snd res = Some FailedReleaseDC
            \<or> snd res = Some FailedGetMonitorInfo \<or> snd res = Some FailedFrameBounds
         then lastResized s else hwnd))
   \<and> (moveToNextMonitor os hwnd s = Inr (res, s') \<longrightarrow>
      lastResized s' =
        (if \<not> isZonableWindow os hwnd \<or> snd res = Some FailedReleaseDC
            \<or> snd res = Some FailedGetMonitorInfo \<or> snd res = Some FailedFrameBounds
         then lastResized s else hwnd))"
  using resize_outcome moveToNextMonitor_outcome by blast

theorem placement_records_window_witness:
  "resize desk 5 (leftHalf specLayouts)
      \<lparr>lastResized = 7, edgeFuncTurn = [0, 0, 0, 0, 0], stdout = [], oscalls = []\<rparr>
     = Inr ((False, None),
            \<lparr>lastResized = 5, edgeFuncTurn = [0, 0, 0, 0, 0], stdout = [NoResize], oscalls = []\<rparr>)
   \<and> moveToNextMonitor stuckDesk 5
      \<lparr>lastResized = 7, edgeFuncTurn = [0, 0, 0, 0, 0], stdout = [], oscalls = []\<rparr>
     = Inr ((False, Some FailedSetWindowPos),
            \<lparr>lastResized = 5, edgeFuncTurn = [0, 0, 0, 0, 0], stdout = [],
             oscalls = [CallShowWindow 5 SW_SHOWNORMAL, CallSetWindowPos 5 4320 0 960 1080]\<rparr>)
   \<and> isZonableWindow desk 5 \<and> isZonableWindow stuckDesk 5"
proof -
  let ?before = "\<lparr>lastResized = 7, edgeFuncTurn = [0, 0, 0, 0, 0 :: int], stdout = [], oscalls = []\<rparr>"
  let ?noop = "\<lparr>lastResized = 5, edgeFuncTurn = [0, 0, 0, 0, 0 :: int], stdout = [NoResize], oscalls = []\<rparr>"
  let ?failed = "\<lparr>lastResized = 5, edgeFuncTurn = [0, 0, 0, 0, 0 :: int], stdout = [],
             oscalls = [CallShowWindow 5 SW_SHOWNORMAL, CallSetWindowPos 5 4320 0 960 1080]\<rparr>"
  have r: "resize desk 5 (leftHalf specLayouts) ?before = Inr ((False, None), ?noop)"
    by (simp add: step_defs scene_defs)
  have m: "moveToNextMonitor stuckDesk 5 ?before = Inr ((False, Some FailedSetWindowPos), ?failed)"
    by (simp add: step_defs scene_defs)
  have z: "isZonableWindow desk 5 \<and> isZonableWindow stuckDesk 5"
    by (simp add: scene_defs)
  show ?thesis
    using placement_records_window [of desk 5 "leftHalf specLayouts" ?before "(False, None)" ?noop]
      placement_records_window [of stuckDesk 5 _ ?before "(False, Some FailedSetWindowPos)" ?failed]
      r m z
    by simp
qed




text \<open>
  C5, as stated, fails: the window is recorded inside \<open>resize\<close>, so a press against a new
  window that is not zonable resets the indices but leaves \<open>lastResized\<close> at the old
  window 5. Pressing the same hotkey on window 5 again then continues at variant 1
  (two thirds, width 1280) instead of restarting at variant 0.
\<close>

theorem new_window_keeps_lastResized:
  "GetForegroundWindow otherLockedDesk = 6
   \<and> callback specLayouts otherLockedDesk HK1
        \<lparr>lastResized = 5, edgeFuncTurn = [1, 0, 0, 0, 0], stdout = [], oscalls = []\<rparr>
     = Inr \<lparr>lastResized = 5, edgeFuncTurn = [1, 0, 0, 0, 0], stdout = [WarnNonZonable 6],
            oscalls = []\<rparr>
   \<and> run specLayouts [(desk, HK1), (otherLockedDesk, HK1), (desk, HK1)] (startup specLayouts)
     = Inr \<lparr>lastResized = 5, edgeFuncTurn = [2, 0, 0, 0, 0],
            stdout = [NoResize, WarnNonZonable 6],
            oscalls = [CallShowWindow 5 SW_SHOWNORMAL, CallSetWindowPos 5 0 0 1280 1080]\<rparr>"
  by (simp add: step_defs scene_defs)

text \<open>
  C5, amended. When a cycle invocation fires against a foreground window different
  from the recorded one and returns, every turn index was reset to 0 before the variant
  was selected, so variant 0 of the fired action is applied and afterwards every index
  is 0 except the fired one, which is 1 if the placement returned no error. The
  last-resized window becomes the new window only if the placement got as far as
  comparing rectangles (zonable window, successful \<open>ReleaseDC\<close>, \<open>GetMonitorInfo\<close> and
  frame bounds); otherwise it keeps its previous value.
\<close>

theorem new_window_resets_turns:
  assumes "lastResized s \<noteq> GetForegroundWindow os" "cycleFuncs L os funcs i s = Inr s'"
  shows "\<exists>row res s2.
       index funcs (int i) = Inr row \<and> row \<noteq> []
     \<and> resize os (GetForegroundWindow os) (row ! 0)
          (s\<lparr>edgeFuncTurn := replicate (length (edgeFuncs L)) 0\<rparr>) = Inr (res, s2)
     \<and> (\<forall>j < length (edgeFuncTurn s').
           edgeFuncTurn s' ! j = (if j = i \<and> snd res = None then 1 else 0))
     \<and> lastResized s' =
         (if isZonableWindow os (GetForegroundWindow os) \<and> ReleaseDC os (GetForegroundWindow os)
             \<and> GetMonitorInfo os (MonitorFromWindow os (GetForegroundWindow os)) \<noteq> None
             \<and> DwmGetWindowAttributeEXTENDED_FRAME_BOUNDS os (GetForegroundWindow os) \<noteq> None
          then GetForegroundWindow os else lastResized s)"
proof -
  let ?h = "GetForegroundWindow os"
  let ?n = "length (edgeFuncs L)"
  let ?s1 = "s\<lparr>edgeFuncTurn := replicate ?n 0\<rparr>"
  have s1: "resetTurns L ?h s = ?s1" using assms(1) by (simp add: resetTurns_def)
  from cycleFuncs_Inr [OF assms(2)] obtain row t k f res s2 where
    row: "index funcs (int i) = Inr row"
    and t: "index (edgeFuncTurn ?s1) (int i) = Inr t"
    and k: "rem t (int (length row)) = Inr k"
    and f: "index row k = Inr f"
    and r: "resize os ?h f ?s1 = Inr (res, s2)"
    and s': "s' = (case snd res of
                   Some e \<Rightarrow> s2\<lparr>stdout := stdout s2 @ [WarnResize e]\<rparr>
                 | None \<Rightarrow> s2\<lparr>edgeFuncTurn :=
                             resetOthers i 0 ((edgeFuncTurn s2)[i := edgeFuncTurn s2 ! i + 1])\<rparr>)"
    unfolding s1 by blast
  have i: "i < ?n" and t0: "t = 0" using t by (auto dest: index_Inr)
  have k0: "k = 0" and ne: "row \<noteq> []" using k t0 by (auto dest: rem_zero)
  have f0: "f = row ! 0" using f k0 by (auto dest: index_Inr)
  have t2: "edgeFuncTurn s2 = replicate ?n 0" using resize_state(1) [OF r] by simp
  have ls1: "lastResized ?s1 = lastResized s" by simp
  have "lastResized s2 =
         (if isZonableWindow os ?h \<and> ReleaseDC os ?h
             \<and> GetMonitorInfo os (MonitorFromWindow os ?h) \<noteq> None
             \<and> DwmGetWindowAttributeEXTENDED_FRAME_BOUNDS os ?h \<noteq> None
          then ?h else lastResized ?s1)"
    by (rule resize_state(2) [OF r])
  then have l2: "lastResized s2 =
         (if isZonableWindow os ?h \<and> ReleaseDC os ?h
             \<and> GetMonitorInfo os (MonitorFromWindow os ?h) \<noteq> None
             \<and> DwmGetWindowAttributeEXTENDED_FRAME_BOUNDS os ?h \<noteq> None
          then ?h else lastResized s)"
    by (simp only: ls1)
  have l': "lastResized s' = lastResized s2" using s' by (cases "snd res") simp_all
  have turns: "\<forall>j < length (edgeFuncTurn s').
           edgeFuncTurn s' ! j = (if j = i \<and> snd res = None then 1 else 0)"
  proof (cases "snd res")
    case None
    then show ?thesis using s' t2 i by (auto simp: resetOthers_length resetOthers_nth)
  next
    case (Some e)
    then show ?thesis using s' t2 by simp
  qed
  show ?thesis
  proof (intro exI [of _ row] exI [of _ res] exI [of _ s2] conjI)
    show "index funcs (int i) = Inr row" by (rule row)
    show "row \<noteq> []" by (rule ne)
    show "resize os ?h (row ! 0) ?s1 = Inr (res, s2)" using r f0 by simp
    show "\<forall>j < length (edgeFuncTurn s').
           edgeFuncTurn s' ! j = (if j = i \<and> snd res = None then 1 else 0)" by (rule turns)
    show "lastResized s' =
         (if isZonableWindow os ?h \<and> ReleaseDC os ?h
             \<and> GetMonitorInfo os (MonitorFromWindow os ?h) \<noteq> None
             \<and> DwmGetWindowAttributeEXTENDED_FRAME_BOUNDS os ?h \<noteq> None
          then ?h else lastResized s)"
      by (simp only: l' l2)
  qed
qed

theorem new_window_resets_turns_witness:
  "lastResized \<lparr>lastResized = 7, edgeFuncTurn = [0, 2, 0, 0, 0], stdout = [], oscalls = []\<rparr>
      \<noteq> GetForegroundWindow desk
   \<and> cycleFuncs specLayouts desk (edgeFuncs specLayouts) 1
        \<lparr>lastResized = 7, edgeFuncTurn = [0, 2, 0, 0, 0], stdout = [], oscalls = []\<rparr>
     = Inr \<lparr>lastResized = 5, edgeFuncTurn = [0, 1, 0, 0, 0], stdout = [],
            oscalls = [CallShowWindow 5 SW_SHOWNORMAL, CallSetWindowPos 5 960 0 960 1080]\<rparr>
   \<and> (\<exists>row. index (edgeFuncs specLayouts) (int 1) = Inr row \<and> row \<noteq> [])"
proof -
  let ?before = "\<lparr>lastResized = 7, edgeFuncTurn = [0, 2, 0, 0, 0 :: int], stdout = [], oscalls = []\<rparr>"
  have w: "lastResized ?before \<noteq> GetForegroundWindow desk" by (simp add: scene_defs)
  have c: "cycleFuncs specLayouts desk (edgeFuncs specLayouts) 1 ?before
     = Inr \<lparr>lastResized = 5, edgeFuncTurn = [0, 1, 0, 0, 0], stdout = [],
            oscalls = [CallShowWindow 5 SW_SHOWNORMAL, CallSetWindowPos 5 960 0 960 1080]\<rparr>"
    by (simp add: step_defs scene_defs)
  show ?thesis
    using new_window_resets_turns [OF w c] w c by auto
qed

subsection \<open>At most one turn index is non-zero\<close>

lemma resetTurns_turns:
  "edgeFuncTurn (resetTurns L h s) =
     (if lastResized s \<noteq> h then replicate (length (edgeFuncs L)) 0 else edgeFuncTurn s)"
  by (simp add: resetTurns_def)

lemma cycleFuncs_inv:
  assumes "cycleFuncs L os funcs i s = Inr s'"
    and "length (filter (\<lambda>t. t \<noteq> 0) (edgeFuncTurn s)) \<le> 1"
  shows "length (filter (\<lambda>t. t \<noteq> 0) (edgeFuncTurn s')) \<le> 1"
proof -
  let ?h = "GetForegroundWindow os"
  let ?s1 = "resetTurns L ?h s"
  from cycleFuncs_Inr [OF assms(1)] obtain f res s2 where
    r: "resize os ?h f ?s1 = Inr (res, s2)"
    and s': "s' = (case snd res of
                   Some e \<Rightarrow> s2\<lparr>stdout := stdout s2 @ [WarnResize e]\<rparr>
                 | None \<Rightarrow> s2\<lparr>edgeFuncTurn :=
                             resetOthers i 0 ((edgeFuncTurn s2)[i := edgeFuncTurn s2 ! i + 1])\<rparr>)"
    by blast
  have t2: "edgeFuncTurn s2 = edgeFuncTurn ?s1" using r by (rule resize_state(1))
  have inv1: "length (filter (\<lambda>t. t \<noteq> 0) (edgeFuncTurn ?s1)) \<le> 1"
    using assms(2) by (simp add: resetTurns_turns replicate_filter)
  show ?thesis
  proof (cases "snd res")
    case None
    let ?xs = "resetOthers i 0 ((edgeFuncTurn s2)[i := edgeFuncTurn s2 ! i + 1])"
    have "\<forall>j < length ?xs. j \<noteq> i \<longrightarrow> ?xs ! j = 0"
      by (simp add: resetOthers_length resetOthers_nth)
    then have "length (filter (\<lambda>t. t \<noteq> 0) ?xs) \<le> 1" by (rule one_nonzero_filter)
    then show ?thesis using s' None by simp
  next
    case (Some e)
    then show ?thesis using s' t2 inv1 by simp
  qed
qed

lemma callback_turns_other:
  assumes "callback L os hk s = Inr s'" "hk = HK50 \<or> hk = HK52"
  shows "edgeFuncTurn s' = edgeFuncTurn s"
proof (cases "hk = HK50")
  case True
  obtain e s1 where m: "maximize os (s\<lparr>lastResized := 0\<rparr>) = (e, s1)"
    by (cases "maximize os (s\<lparr>lastResized := 0\<rparr>)")
  have "edgeFuncTurn s1 = edgeFuncTurn s"
    using maximize_state [of os "s\<lparr>lastResized := 0\<rparr>"] m by simp
  then show ?thesis
    using assms(1) True m by (cases e) (auto simp: callback_def Let_def)
next
  case False
  then have hk: "hk = HK52" using assms(2) by simp
  from assms(1) hk obtain res s1 where
    m: "moveToNextMonitor os (GetForegroundWindow os) s = Inr (res, s1)"
    and s': "s' = (case snd res of Some e \<Rightarrow> s1\<lparr>stdout := stdout s1 @ [WarnMaximize e]\<rparr> | None \<Rightarrow> s1)"
    by (auto simp: callback_def Let_def bindP_eq_Inr split: if_splits option.splits)
  have "edgeFuncTurn s1 = edgeFuncTurn s" using m by (rule moveToNextMonitor_state)
  then show ?thesis using s' by (cases "snd res") simp_all
qed

lemma callback_inv:
  assumes "callback L os hk s = Inr s'"
    and "length (filter (\<lambda>t. t \<noteq> 0) (edgeFuncTurn s)) \<le> 1"
  shows "length (filter (\<lambda>t. t \<noteq> 0) (edgeFuncTurn s')) \<le> 1"
proof (cases "hk = HK50 \<or> hk = HK52")
  case True
  with assms show ?thesis by (simp add: callback_turns_other)
next
  case False
  then obtain i where "cycleFuncs L os (edgeFuncs L) i s = Inr s'"
    using assms(1) by (cases hk) (auto simp: callback_def cycleEdgeFuncs_def)
  then show ?thesis using assms(2) by (rule cycleFuncs_inv)
qed

lemma run_inv:
  "run L evs s = Inr s' \<Longrightarrow> length (filter (\<lambda>t. t \<noteq> 0) (edgeFuncTurn s)) \<le> 1 \<Longrightarrow>
   length (filter (\<lambda>t. t \<noteq> 0) (edgeFuncTurn s')) \<le> 1"
proof (induction evs arbitrary: s)
  case Nil
  then show ?case by simp
next
  case (Cons ev evs)
  obtain os hk where ev: "ev = (os, hk)" by (cases ev)
  from Cons.prems(1) ev obtain s1 where c: "callback L os hk s = Inr s1" and r: "run L evs s1 = Inr s'"
    by (auto simp: bindP_eq_Inr)
  from callback_inv [OF c Cons.prems(2)] have "length (filter (\<lambda>t. t \<noteq> 0) (edgeFuncTurn s1)) \<le> 1" .
  with Cons.IH [OF r] show ?case .
qed

lemma cross_action:
  assumes same: "GetForegroundWindow os = lastResized s0"
    and ab: "a \<noteq> b" and a: "a < length (edgeFuncTurn s0)"
    and c: "cycleFuncs L os funcs b s0 = Inr s1"
    and adv: "edgeFuncTurn s1 ! b = edgeFuncTurn s0 ! b + 1"
  shows "edgeFuncTurn s1 ! a = 0"
proof -
  let ?h = "GetForegroundWindow os"
  have s1: "resetTurns L ?h s0 = s0" using same by (simp add: resetTurns_def)
  from cycleFuncs_Inr [OF c] obtain f res s2 where
    r: "resize os ?h f s0 = Inr (res, s2)"
    and s': "s1 = (case snd res of
                   Some e \<Rightarrow> s2\<lparr>stdout := stdout s2 @ [WarnResize e]\<rparr>
                 | None \<Rightarrow> s2\<lparr>edgeFuncTurn :=
                             resetOthers b 0 ((edgeFuncTurn s2)[b := edgeFuncTurn s2 ! b + 1])\<rparr>)"
    unfolding s1 by blast
  have t2: "edgeFuncTurn s2 = edgeFuncTurn s0" using r by (rule resize_state(1))
  show ?thesis
  proof (cases "snd res")
    case None
    then show ?thesis using s' t2 a ab by (simp add: resetOthers_nth)
  next
    case (Some e)
    then have "edgeFuncTurn s1 = edgeFuncTurn s0" using s' t2 by simp
    with adv show ?thesis by simp
  qed
qed

text \<open>
  C4. After any sequence of hotkey invocations from the start state that returns, at
  most one turn index is non-zero. In particular, when action \<open>b\<close> is invoked against the
  recorded window and its own index advances, the index of any other action \<open>a\<close> (1 in
  the scenario described) is 0 afterwards.
\<close>

theorem at_most_one_turn_nonzero:
  "(run L evs (startup L) = Inr s \<longrightarrow> length (filter (\<lambda>t. t \<noteq> 0) (edgeFuncTurn s)) \<le> 1)
   \<and> (GetForegroundWindow os = lastResized s0 \<and> a \<noteq> b \<and> a < length (edgeFuncTurn s0)
        \<and> cycleEdgeFuncs L os b s0 = Inr s1
        \<and> edgeFuncTurn s1 ! b = edgeFuncTurn s0 ! b + 1
      \<longrightarrow> edgeFuncTurn s1 ! a = 0)"
proof -
  have "length (filter (\<lambda>t. t \<noteq> 0) (edgeFuncTurn (startup L))) \<le> 1"
    by (simp add: startup_def replicate_filter)
  then have 1: "run L evs (startup L) = Inr s \<longrightarrow> length (filter (\<lambda>t. t \<noteq> 0) (edgeFuncTurn s)) \<le> 1"
    by (auto dest: run_inv)
  show ?thesis
    using 1 by (auto simp: cycleEdgeFuncs_def dest: cross_action)
qed

theorem at_most_one_turn_nonzero_witness:
  "run specLayouts [(desk, HK2), (desk, HK2), (desk, HK1), (desk, HK50), (emptyDesk, HK50), (lockedDesk, HK3)]
       (startup specLayouts)
     = Inr \<lparr>lastResized = 0, edgeFuncTurn = [0, 0, 1, 0, 0],
            stdout = [NoResize, WarnNonZonable 5],
            oscalls = [CallShowWindow 5 SW_SHOWNORMAL, CallSetWindowPos 5 960 0 960 1080,
                       CallShowWindow 5 SW_SHOWNORMAL, CallSetWindowPos 5 640 0 1280 1080,
                       CallShowWindow 5 SW_MAXIMIZE, CallShowWindow 0 SW_MAXIMIZE]\<rparr>
   \<and> length (filter (\<lambda>t. t \<noteq> 0) [0, 0, 1, 0, 0 :: int]) \<le> 1
   \<and> GetForegroundWindow desk = 5
   \<and> cycleEdgeFuncs specLayouts desk 1
        \<lparr>lastResized = 5, edgeFuncTurn = [1, 0, 0, 0, 0], stdout = [], oscalls = []\<rparr>
      = Inr \<lparr>lastResized = 5, edgeFuncTurn = [0, 1, 0, 0, 0], stdout = [],
             oscalls = [CallShowWindow 5 SW_SHOWNORMAL, CallSetWindowPos 5 960 0 960 1080]\<rparr>
   \<and> [0, 1, 0, 0, 0 :: int] ! 0 = 0"
proof -
  let ?final = "\<lparr>lastResized = 0, edgeFuncTurn = [0, 0, 1, 0, 0 :: int],
            stdout = [NoResize, WarnNonZonable 5],
            oscalls = [CallShowWindow 5 SW_SHOWNORMAL, CallSetWindowPos 5 960 0 960 1080,
                       CallShowWindow 5 SW_SHOWNORMAL, CallSetWindowPos 5 640 0 1280 1080,
                       CallShowWindow 5 SW_MAXIMIZE, CallShowWindow 0 SW_MAXIMIZE]\<rparr>"
  let ?before = "\<lparr>lastResized = 5, edgeFuncTurn = [1, 0, 0, 0, 0 :: int], stdout = [], oscalls = []\<rparr>"
  let ?after = "\<lparr>lastResized = 5, edgeFuncTurn = [0, 1, 0, 0, 0 :: int], stdout = [],
             oscalls = [CallShowWindow 5 SW_SHOWNORMAL, CallSetWindowPos 5 960 0 960 1080]\<rparr>"
  have r: "run specLayouts [(desk, HK2), (desk, HK2), (desk, HK1), (desk, HK50), (emptyDesk, HK50), (lockedDesk, HK3)]
       (startup specLayouts) = Inr ?final"
    by (simp add: step_defs scene_defs)
  have fg: "GetForegroundWindow desk = 5" by (simp add: desk_def)
  have c: "cycleEdgeFuncs specLayouts desk 1 ?before = Inr ?after"
    by (simp add: step_defs scene_defs)
  show ?thesis
    using at_most_one_turn_nonzero [of specLayouts
        "[(desk, HK2), (desk, HK2), (desk, HK1), (desk, HK50), (emptyDesk, HK50), (lockedDesk, HK3)]"
        ?final desk ?before 0 1 ?after] r fg c
    by simp
qed

subsection \<open>Returning to the dispatcher\<close>

















text \<open>Panics other than the explicit one: a window DPI of 0, an empty monitor list, a
  \<open>nil\<close> window rectangle.\<close>

lemma platform_panics:
  "callback specLayouts dpiZeroDesk HK1 (startup specLayouts) = Inl DivideByZero
   \<and> callback specLayouts noMonitorDesk HK52 (startup specLayouts) = Inl DivideByZero
   \<and> callback specLayouts nilRectDesk HK1 (startup specLayouts) = Inl NilDereference"
  by (simp add: step_defs scene_defs)




end
